theory Spec2Isabelle
  imports Main "HOL-Library.Extended_Nat" "HOL-Library.Multiset" "HOL-Library.Word"
begin

section \<open>JavaScript strings\<close>

text \<open>
  A JavaScript string is a sequence of UTF-16 code units. It is modelled as a \<open>string\<close>,
  a list of 8-bit characters read as the code units U+0000 to U+00FF. The library functions
  below follow ECMAScript on that range: \<open>toLowerCase\<close> maps A-Z and the Latin-1 capitals
  (U+00C0 to U+00DE without the multiplication sign U+00D7) to the letter 32 places up; the
  white space class of \<open>trim\<close> and of the pattern \<open>\s\<close> is TAB, LF, VT, FF, CR, space and
  the no-break space U+00A0.
\<close>

definition toLowerChar :: "char \<Rightarrow> char" where
  "toLowerChar c =
     (let n = (of_char c :: nat)
      in if (65 \<le> n \<and> n \<le> 90) \<or> (192 \<le> n \<and> n \<le> 222 \<and> n \<noteq> 215)
         then char_of (n + 32) else c)"

definition toLowerCase :: "string \<Rightarrow> string" where
  "toLowerCase s = map toLowerChar s"

definition isWhiteSpace :: "char \<Rightarrow> bool" where
  "isWhiteSpace c =
     (c \<in> set [CHR 0x09, CHR 0x0A, CHR 0x0B, CHR 0x0C, CHR 0x0D, CHR 0x20, CHR 0xA0])"

definition trim :: "string \<Rightarrow> string" where
  "trim s = rev (dropWhile isWhiteSpace (rev (dropWhile isWhiteSpace s)))"

text \<open>\<open>s.startsWith(p)\<close> and \<open>s.includes(p)\<close>.\<close>

fun startsWith :: "string \<Rightarrow> string \<Rightarrow> bool" where
  "startsWith s [] = True"
| "startsWith [] (p # ps) = False"
| "startsWith (c # cs) (p # ps) = (c = p \<and> startsWith cs ps)"

fun includes_str :: "string \<Rightarrow> string \<Rightarrow> bool" where
  "includes_str [] p = (p = [])"
| "includes_str (c # cs) p = (startsWith (c # cs) p \<or> includes_str cs p)"

text \<open>\<open>s.replace(/\s+/g, " ")\<close>: every maximal run of white space becomes one space.\<close>

function collapseWhiteSpace :: "string \<Rightarrow> string" where
  "collapseWhiteSpace [] = []"
| "collapseWhiteSpace (c # cs) =
     (if isWhiteSpace c then CHR '' '' # collapseWhiteSpace (dropWhile isWhiteSpace cs)
      else c # collapseWhiteSpace cs)"
  by pat_completeness auto
termination
  by (relation "measure length") (auto simp: length_dropWhile_le less_Suc_eq_le)

text \<open>
  The edit distance of the package \<open>fastest-levenshtein\<close>, which the resolver imports as
  \<open>distance\<close>: the Levenshtein distance with unit costs for insertion, deletion and
  substitution, over code units. It is computed row by row: \<open>nextRow\<close> fills the row of
  one character of the first string from the row above it.
\<close>

fun nextRow :: "char \<Rightarrow> string \<Rightarrow> nat \<Rightarrow> nat list \<Rightarrow> nat \<Rightarrow> nat list" where
  "nextRow x (y # ys) diag (up # ups) left =
     (let v = min (min (up + 1) (left + 1)) (diag + (if x = y then 0 else 1))
      in v # nextRow x ys up ups v)"
| "nextRow x ys diag ups left = []"

fun levRows :: "string \<Rightarrow> string \<Rightarrow> nat list \<Rightarrow> nat list" where
  "levRows [] b row = row"
| "levRows (x # xs) b row =
     levRows xs b (case row of [] \<Rightarrow> [] | d # ds \<Rightarrow> (d + 1) # nextRow x b d ds (d + 1))"

definition distance :: "string \<Rightarrow> string \<Rightarrow> nat" where
  "distance a b = last (levRows a b [0 ..< Suc (length b)])"

text \<open>
  The same distance by its recurrence over prefixes: \<open>lev a b i j\<close> is the number of
  edits between the first \<open>i\<close> characters of \<open>a\<close> and the first \<open>j\<close> characters of \<open>b\<close>.
\<close>

fun lev :: "string \<Rightarrow> string \<Rightarrow> nat \<Rightarrow> nat \<Rightarrow> nat" where
  "lev a b 0 j = j"
| "lev a b (Suc i) 0 = Suc i"
| "lev a b (Suc i) (Suc j) =
     min (min (lev a b i (Suc j) + 1) (lev a b (Suc i) j + 1))
         (lev a b i j + (if a ! i = b ! j then 0 else 1))"

section \<open>The curated company database (domain-resolver)\<close>

record CompanyEntry =
  domain :: string
  aliases :: "string list"
  category :: string

text \<open>
  \<open>COMPANY_DATABASE\<close> is an object literal. It is kept as an association list in the order
  of the literal, which is the order \<open>Object.entries\<close> enumerates it in: no key is written
  twice and none is an array index.
\<close>

definition COMPANY_DATABASE :: "(string \<times> CompanyEntry) list" where
  "COMPANY_DATABASE = [
    (''shopify'', \<lparr>domain = ''shopify.com'', aliases = [''shopify plus''], category = ''E-Commerce''\<rparr>),
    (''woocommerce'', \<lparr>domain = ''woocommerce.com'', aliases = [''woo commerce'', ''woo''], category = ''E-Commerce''\<rparr>),
    (''bigcommerce'', \<lparr>domain = ''bigcommerce.com'', aliases = [''big commerce''], category = ''E-Commerce''\<rparr>),
    (''magento'', \<lparr>domain = ''magento.com'', aliases = [''adobe commerce''], category = ''E-Commerce''\<rparr>),
    (''squarespace'', \<lparr>domain = ''squarespace.com'', aliases = [''square space''], category = ''E-Commerce''\<rparr>),
    (''wix'', \<lparr>domain = ''wix.com'', aliases = [], category = ''E-Commerce''\<rparr>),
    (''etsy'', \<lparr>domain = ''etsy.com'', aliases = [], category = ''E-Commerce''\<rparr>),
    (''amazon'', \<lparr>domain = ''amazon.com'', aliases = [''aws marketplace''], category = ''E-Commerce''\<rparr>),
    (''ebay'', \<lparr>domain = ''ebay.com'', aliases = [], category = ''E-Commerce''\<rparr>),
    (''prestashop'', \<lparr>domain = ''prestashop.com'', aliases = [''presta shop''], category = ''E-Commerce''\<rparr>),
    (''volusion'', \<lparr>domain = ''volusion.com'', aliases = [], category = ''E-Commerce''\<rparr>),
    (''flipkart'', \<lparr>domain = ''flipkart.com'', aliases = [], category = ''E-Commerce''\<rparr>),
    (''hubspot'', \<lparr>domain = ''hubspot.com'', aliases = [''hub spot'', ''hs''], category = ''CRM''\<rparr>),
    (''salesforce'', \<lparr>domain = ''salesforce.com'', aliases = [''sfdc'', ''sf''], category = ''CRM''\<rparr>),
    (''mailchimp'', \<lparr>domain = ''mailchimp.com'', aliases = [''mail chimp''], category = ''Marketing''\<rparr>),
    (''marketo'', \<lparr>domain = ''marketo.com'', aliases = [], category = ''Marketing''\<rparr>),
    (''activecampaign'', \<lparr>domain = ''activecampaign.com'', aliases = [''active campaign''], category = ''Marketing''\<rparr>),
    (''constantcontact'', \<lparr>domain = ''constantcontact.com'', aliases = [''constant contact''], category = ''Marketing''\<rparr>),
    (''sendinblue'', \<lparr>domain = ''brevo.com'', aliases = [''brevo''], category = ''Marketing''\<rparr>),
    (''klaviyo'', \<lparr>domain = ''klaviyo.com'', aliases = [], category = ''Marketing''\<rparr>),
    (''intercom'', \<lparr>domain = ''intercom.com'', aliases = [], category = ''CRM''\<rparr>),
    (''zendesk'', \<lparr>domain = ''zendesk.com'', aliases = [], category = ''CRM''\<rparr>),
    (''freshdesk'', \<lparr>domain = ''freshdesk.com'', aliases = [], category = ''CRM''\<rparr>),
    (''pipedrive'', \<lparr>domain = ''pipedrive.com'', aliases = [''pipe drive''], category = ''CRM''\<rparr>),
    (''zoho'', \<lparr>domain = ''zoho.com'', aliases = [], category = ''CRM''\<rparr>),
    (''drift'', \<lparr>domain = ''drift.com'', aliases = [], category = ''CRM''\<rparr>),
    (''freshsales'', \<lparr>domain = ''freshworks.com'', aliases = [''fresh sales'', ''freshworks''], category = ''CRM''\<rparr>),
    (''aws'', \<lparr>domain = ''aws.amazon.com'', aliases = [''amazon web services''], category = ''Cloud''\<rparr>),
    (''gcp'', \<lparr>domain = ''cloud.google.com'', aliases = [''google cloud'', ''google cloud platform''], category = ''Cloud''\<rparr>),
    (''azure'', \<lparr>domain = ''azure.microsoft.com'', aliases = [''microsoft azure''], category = ''Cloud''\<rparr>),
    (''digitalocean'', \<lparr>domain = ''digitalocean.com'', aliases = [''digital ocean'', ''do''], category = ''Cloud''\<rparr>),
    (''heroku'', \<lparr>domain = ''heroku.com'', aliases = [], category = ''Cloud''\<rparr>),
    (''vercel'', \<lparr>domain = ''vercel.com'', aliases = [''zeit''], category = ''Cloud''\<rparr>),
    (''netlify'', \<lparr>domain = ''netlify.com'', aliases = [], category = ''Cloud''\<rparr>),
    (''cloudflare'', \<lparr>domain = ''cloudflare.com'', aliases = [''cloud flare'', ''cf''], category = ''Cloud''\<rparr>),
    (''linode'', \<lparr>domain = ''linode.com'', aliases = [''akamai''], category = ''Cloud''\<rparr>),
    (''render'', \<lparr>domain = ''render.com'', aliases = [], category = ''Cloud''\<rparr>),
    (''railway'', \<lparr>domain = ''railway.app'', aliases = [], category = ''Cloud''\<rparr>),
    (''supabase'', \<lparr>domain = ''supabase.com'', aliases = [], category = ''Cloud''\<rparr>),
    (''firebase'', \<lparr>domain = ''firebase.google.com'', aliases = [], category = ''Cloud''\<rparr>),
    (''planetscale'', \<lparr>domain = ''planetscale.com'', aliases = [''planet scale''], category = ''Cloud''\<rparr>),
    (''neon'', \<lparr>domain = ''neon.tech'', aliases = [], category = ''Cloud''\<rparr>),
    (''github'', \<lparr>domain = ''github.com'', aliases = [''gh''], category = ''DevTools''\<rparr>),
    (''gitlab'', \<lparr>domain = ''gitlab.com'', aliases = [''gl''], category = ''DevTools''\<rparr>),
    (''bitbucket'', \<lparr>domain = ''bitbucket.org'', aliases = [''bit bucket'', ''bb''], category = ''DevTools''\<rparr>),
    (''jira'', \<lparr>domain = ''atlassian.com'', aliases = [], category = ''DevTools''\<rparr>),
    (''atlassian'', \<lparr>domain = ''atlassian.com'', aliases = [], category = ''DevTools''\<rparr>),
    (''confluence'', \<lparr>domain = ''atlassian.com/software/confluence'', aliases = [], category = ''DevTools''\<rparr>),
    (''docker'', \<lparr>domain = ''docker.com'', aliases = [], category = ''DevTools''\<rparr>),
    (''kubernetes'', \<lparr>domain = ''kubernetes.io'', aliases = [''k8s''], category = ''DevTools''\<rparr>),
    (''jenkins'', \<lparr>domain = ''jenkins.io'', aliases = [], category = ''DevTools''\<rparr>),
    (''circleci'', \<lparr>domain = ''circleci.com'', aliases = [''circle ci''], category = ''DevTools''\<rparr>),
    (''travisci'', \<lparr>domain = ''travis-ci.com'', aliases = [''travis ci'', ''travis''], category = ''DevTools''\<rparr>),
    (''sentry'', \<lparr>domain = ''sentry.io'', aliases = [], category = ''DevTools''\<rparr>),
    (''datadog'', \<lparr>domain = ''datadoghq.com'', aliases = [''data dog''], category = ''DevTools''\<rparr>),
    (''newrelic'', \<lparr>domain = ''newrelic.com'', aliases = [''new relic''], category = ''DevTools''\<rparr>),
    (''postman'', \<lparr>domain = ''postman.com'', aliases = [], category = ''DevTools''\<rparr>),
    (''insomnia'', \<lparr>domain = ''insomnia.rest'', aliases = [], category = ''DevTools''\<rparr>),
    (''terraform'', \<lparr>domain = ''terraform.io'', aliases = [''tf''], category = ''DevTools''\<rparr>),
    (''hashicorp'', \<lparr>domain = ''hashicorp.com'', aliases = [], category = ''DevTools''\<rparr>),
    (''grafana'', \<lparr>domain = ''grafana.com'', aliases = [], category = ''DevTools''\<rparr>),
    (''prometheus'', \<lparr>domain = ''prometheus.io'', aliases = [], category = ''DevTools''\<rparr>),
    (''elasticsearch'', \<lparr>domain = ''elastic.co'', aliases = [''elastic'', ''elk''], category = ''DevTools''\<rparr>),
    (''kibana'', \<lparr>domain = ''elastic.co/kibana'', aliases = [], category = ''DevTools''\<rparr>),
    (''redis'', \<lparr>domain = ''redis.io'', aliases = [], category = ''DevTools''\<rparr>),
    (''mongodb'', \<lparr>domain = ''mongodb.com'', aliases = [''mongo''], category = ''DevTools''\<rparr>),
    (''postgresql'', \<lparr>domain = ''postgresql.org'', aliases = [''postgres'', ''pg''], category = ''DevTools''\<rparr>),
    (''mysql'', \<lparr>domain = ''mysql.com'', aliases = [], category = ''DevTools''\<rparr>),
    (''sqlite'', \<lparr>domain = ''sqlite.org'', aliases = [], category = ''DevTools''\<rparr>),
    (''npm'', \<lparr>domain = ''npmjs.com'', aliases = [], category = ''DevTools''\<rparr>),
    (''yarn'', \<lparr>domain = ''yarnpkg.com'', aliases = [], category = ''DevTools''\<rparr>),
    (''webpack'', \<lparr>domain = ''webpack.js.org'', aliases = [], category = ''DevTools''\<rparr>),
    (''vite'', \<lparr>domain = ''vitejs.dev'', aliases = [''vitejs''], category = ''DevTools''\<rparr>),
    (''eslint'', \<lparr>domain = ''eslint.org'', aliases = [], category = ''DevTools''\<rparr>),
    (''prettier'', \<lparr>domain = ''prettier.io'', aliases = [], category = ''DevTools''\<rparr>),
    (''stripe'', \<lparr>domain = ''stripe.com'', aliases = [], category = ''Payments''\<rparr>),
    (''paypal'', \<lparr>domain = ''paypal.com'', aliases = [''pay pal''], category = ''Payments''\<rparr>),
    (''square'', \<lparr>domain = ''squareup.com'', aliases = [''squareup''], category = ''Payments''\<rparr>),
    (''braintree'', \<lparr>domain = ''braintreepayments.com'', aliases = [''brain tree''], category = ''Payments''\<rparr>),
    (''adyen'', \<lparr>domain = ''adyen.com'', aliases = [], category = ''Payments''\<rparr>),
    (''klarna'', \<lparr>domain = ''klarna.com'', aliases = [], category = ''Payments''\<rparr>),
    (''afterpay'', \<lparr>domain = ''afterpay.com'', aliases = [''after pay''], category = ''Payments''\<rparr>),
    (''razorpay'', \<lparr>domain = ''razorpay.com'', aliases = [''razor pay''], category = ''Payments''\<rparr>),
    (''plaid'', \<lparr>domain = ''plaid.com'', aliases = [], category = ''Payments''\<rparr>),
    (''wise'', \<lparr>domain = ''wise.com'', aliases = [''transferwise''], category = ''Payments''\<rparr>),
    (''slack'', \<lparr>domain = ''slack.com'', aliases = [], category = ''Communication''\<rparr>),
    (''discord'', \<lparr>domain = ''discord.com'', aliases = [], category = ''Communication''\<rparr>),
    (''teams'', \<lparr>domain = ''microsoft.com/en-us/microsoft-teams'', aliases = [''microsoft teams'', ''ms teams''], category = ''Communication''\<rparr>),
    (''zoom'', \<lparr>domain = ''zoom.us'', aliases = [], category = ''Communication''\<rparr>),
    (''telegram'', \<lparr>domain = ''telegram.org'', aliases = [''tg''], category = ''Communication''\<rparr>),
    (''whatsapp'', \<lparr>domain = ''whatsapp.com'', aliases = [(''what'' @ [CHR 0x27] @ ''s app''), ''wa''], category = ''Communication''\<rparr>),
    (''twilio'', \<lparr>domain = ''twilio.com'', aliases = [], category = ''Communication''\<rparr>),
    (''sendgrid'', \<lparr>domain = ''sendgrid.com'', aliases = [''send grid''], category = ''Communication''\<rparr>),
    (''mailgun'', \<lparr>domain = ''mailgun.com'', aliases = [''mail gun''], category = ''Communication''\<rparr>),
    (''notion'', \<lparr>domain = ''notion.so'', aliases = [], category = ''Collaboration''\<rparr>),
    (''airtable'', \<lparr>domain = ''airtable.com'', aliases = [''air table''], category = ''Collaboration''\<rparr>),
    (''asana'', \<lparr>domain = ''asana.com'', aliases = [], category = ''Collaboration''\<rparr>),
    (''trello'', \<lparr>domain = ''trello.com'', aliases = [], category = ''Collaboration''\<rparr>),
    (''monday'', \<lparr>domain = ''monday.com'', aliases = [''monday.com''], category = ''Collaboration''\<rparr>),
    (''clickup'', \<lparr>domain = ''clickup.com'', aliases = [''click up''], category = ''Collaboration''\<rparr>),
    (''basecamp'', \<lparr>domain = ''basecamp.com'', aliases = [''base camp''], category = ''Collaboration''\<rparr>),
    (''linear'', \<lparr>domain = ''linear.app'', aliases = [], category = ''Collaboration''\<rparr>),
    (''miro'', \<lparr>domain = ''miro.com'', aliases = [], category = ''Collaboration''\<rparr>),
    (''figma'', \<lparr>domain = ''figma.com'', aliases = [], category = ''Collaboration''\<rparr>),
    (''canva'', \<lparr>domain = ''canva.com'', aliases = [], category = ''Collaboration''\<rparr>),
    (''openai'', \<lparr>domain = ''openai.com'', aliases = [''open ai'', ''chatgpt'', ''gpt''], category = ''AI''\<rparr>),
    (''anthropic'', \<lparr>domain = ''anthropic.com'', aliases = [''claude''], category = ''AI''\<rparr>),
    (''google'', \<lparr>domain = ''google.com'', aliases = [], category = ''AI''\<rparr>),
    (''deepmind'', \<lparr>domain = ''deepmind.google'', aliases = [''deep mind''], category = ''AI''\<rparr>),
    (''huggingface'', \<lparr>domain = ''huggingface.co'', aliases = [''hugging face'', ''hf''], category = ''AI''\<rparr>),
    (''cohere'', \<lparr>domain = ''cohere.com'', aliases = [], category = ''AI''\<rparr>),
    (''replicate'', \<lparr>domain = ''replicate.com'', aliases = [], category = ''AI''\<rparr>),
    (''stability'', \<lparr>domain = ''stability.ai'', aliases = [''stable diffusion'', ''stability ai''], category = ''AI''\<rparr>),
    (''midjourney'', \<lparr>domain = ''midjourney.com'', aliases = [''mid journey'', ''mj''], category = ''AI''\<rparr>),
    (''cursor'', \<lparr>domain = ''cursor.com'', aliases = [''cursor ai''], category = ''AI''\<rparr>),
    (''perplexity'', \<lparr>domain = ''perplexity.ai'', aliases = [], category = ''AI''\<rparr>),
    (''mistral'', \<lparr>domain = ''mistral.ai'', aliases = [''mistral ai''], category = ''AI''\<rparr>),
    (''elevenlabs'', \<lparr>domain = ''elevenlabs.io'', aliases = [''eleven labs'', ''11labs''], category = ''AI''\<rparr>),
    (''googleanalytics'', \<lparr>domain = ''analytics.google.com'', aliases = [''google analytics'', ''ga''], category = ''Analytics''\<rparr>),
    (''mixpanel'', \<lparr>domain = ''mixpanel.com'', aliases = [''mix panel''], category = ''Analytics''\<rparr>),
    (''amplitude'', \<lparr>domain = ''amplitude.com'', aliases = [], category = ''Analytics''\<rparr>),
    (''segment'', \<lparr>domain = ''segment.com'', aliases = [], category = ''Analytics''\<rparr>),
    (''hotjar'', \<lparr>domain = ''hotjar.com'', aliases = [''hot jar''], category = ''Analytics''\<rparr>),
    (''looker'', \<lparr>domain = ''looker.com'', aliases = [], category = ''Analytics''\<rparr>),
    (''tableau'', \<lparr>domain = ''tableau.com'', aliases = [], category = ''Analytics''\<rparr>),
    (''powerbi'', \<lparr>domain = ''powerbi.microsoft.com'', aliases = [''power bi'', ''microsoft power bi''], category = ''Analytics''\<rparr>),
    (''snowflake'', \<lparr>domain = ''snowflake.com'', aliases = [], category = ''Analytics''\<rparr>),
    (''databricks'', \<lparr>domain = ''databricks.com'', aliases = [''data bricks''], category = ''Analytics''\<rparr>),
    (''dbt'', \<lparr>domain = ''getdbt.com'', aliases = [''data build tool''], category = ''Analytics''\<rparr>),
    (''facebook'', \<lparr>domain = ''facebook.com'', aliases = [''fb'', ''meta''], category = ''Social''\<rparr>),
    (''instagram'', \<lparr>domain = ''instagram.com'', aliases = [''ig'', ''insta''], category = ''Social''\<rparr>),
    (''twitter'', \<lparr>domain = ''x.com'', aliases = [''x'', ''x.com''], category = ''Social''\<rparr>),
    (''linkedin'', \<lparr>domain = ''linkedin.com'', aliases = [''linked in'', ''li''], category = ''Social''\<rparr>),
    (''pinterest'', \<lparr>domain = ''pinterest.com'', aliases = [], category = ''Social''\<rparr>),
    (''tiktok'', \<lparr>domain = ''tiktok.com'', aliases = [''tik tok''], category = ''Social''\<rparr>),
    (''reddit'', \<lparr>domain = ''reddit.com'', aliases = [], category = ''Social''\<rparr>),
    (''youtube'', \<lparr>domain = ''youtube.com'', aliases = [''yt''], category = ''Social''\<rparr>),
    (''snapchat'', \<lparr>domain = ''snapchat.com'', aliases = [''snap''], category = ''Social''\<rparr>),
    (''threads'', \<lparr>domain = ''threads.net'', aliases = [], category = ''Social''\<rparr>),
    (''auth0'', \<lparr>domain = ''auth0.com'', aliases = [], category = ''Auth''\<rparr>),
    (''okta'', \<lparr>domain = ''okta.com'', aliases = [], category = ''Auth''\<rparr>),
    (''clerk'', \<lparr>domain = ''clerk.com'', aliases = [], category = ''Auth''\<rparr>),
    (''stytch'', \<lparr>domain = ''stytch.com'', aliases = [], category = ''Auth''\<rparr>),
    (''onelogin'', \<lparr>domain = ''onelogin.com'', aliases = [''one login''], category = ''Auth''\<rparr>),
    (''duo'', \<lparr>domain = ''duo.com'', aliases = [''duo security''], category = ''Auth''\<rparr>),
    (''crowdstrike'', \<lparr>domain = ''crowdstrike.com'', aliases = [''crowd strike''], category = ''Security''\<rparr>),
    (''snyk'', \<lparr>domain = ''snyk.io'', aliases = [], category = ''Security''\<rparr>),
    (''vault'', \<lparr>domain = ''vaultproject.io'', aliases = [''hashicorp vault''], category = ''Security''\<rparr>),
    (''onepassword'', \<lparr>domain = ''1password.com'', aliases = [''1password''], category = ''Security''\<rparr>),
    (''lastpass'', \<lparr>domain = ''lastpass.com'', aliases = [''last pass''], category = ''Security''\<rparr>),
    (''sketch'', \<lparr>domain = ''sketch.com'', aliases = [], category = ''Design''\<rparr>),
    (''invision'', \<lparr>domain = ''invisionapp.com'', aliases = [''in vision''], category = ''Design''\<rparr>),
    (''zeplin'', \<lparr>domain = ''zeplin.io'', aliases = [], category = ''Design''\<rparr>),
    (''framer'', \<lparr>domain = ''framer.com'', aliases = [], category = ''Design''\<rparr>),
    (''storybook'', \<lparr>domain = ''storybook.js.org'', aliases = [], category = ''Design''\<rparr>),
    (''chromatic'', \<lparr>domain = ''chromatic.com'', aliases = [], category = ''Design''\<rparr>),
    (''adobe'', \<lparr>domain = ''adobe.com'', aliases = [], category = ''Design''\<rparr>),
    (''adobe xd'', \<lparr>domain = ''adobe.com'', aliases = [''xd''], category = ''Design''\<rparr>),
    (''react'', \<lparr>domain = ''react.dev'', aliases = [''reactjs''], category = ''Framework''\<rparr>),
    (''nextjs'', \<lparr>domain = ''nextjs.org'', aliases = [''next.js'', ''next js'', ''next''], category = ''Framework''\<rparr>),
    (''vue'', \<lparr>domain = ''vuejs.org'', aliases = [''vuejs'', ''vue.js''], category = ''Framework''\<rparr>),
    (''nuxt'', \<lparr>domain = ''nuxt.com'', aliases = [''nuxtjs'', ''nuxt.js''], category = ''Framework''\<rparr>),
    (''angular'', \<lparr>domain = ''angular.io'', aliases = [''angularjs''], category = ''Framework''\<rparr>),
    (''svelte'', \<lparr>domain = ''svelte.dev'', aliases = [''sveltejs''], category = ''Framework''\<rparr>),
    (''remix'', \<lparr>domain = ''remix.run'', aliases = [''remix.run''], category = ''Framework''\<rparr>),
    (''astro'', \<lparr>domain = ''astro.build'', aliases = [''astro.build''], category = ''Framework''\<rparr>),
    (''tailwindcss'', \<lparr>domain = ''tailwindcss.com'', aliases = [''tailwind'', ''tailwind css''], category = ''Framework''\<rparr>),
    (''bootstrap'', \<lparr>domain = ''getbootstrap.com'', aliases = [], category = ''Framework''\<rparr>),
    (''nodejs'', \<lparr>domain = ''nodejs.org'', aliases = [''node.js'', ''node js'', ''node''], category = ''Framework''\<rparr>),
    (''deno'', \<lparr>domain = ''deno.com'', aliases = [], category = ''Framework''\<rparr>),
    (''bun'', \<lparr>domain = ''bun.sh'', aliases = [], category = ''Framework''\<rparr>),
    (''python'', \<lparr>domain = ''python.org'', aliases = [], category = ''Language''\<rparr>),
    (''rust'', \<lparr>domain = ''rust-lang.org'', aliases = [''rustlang''], category = ''Language''\<rparr>),
    (''go'', \<lparr>domain = ''go.dev'', aliases = [''golang''], category = ''Language''\<rparr>),
    (''swift'', \<lparr>domain = ''swift.org'', aliases = [], category = ''Language''\<rparr>),
    (''kotlin'', \<lparr>domain = ''kotlinlang.org'', aliases = [''kotlin lang''], category = ''Language''\<rparr>),
    (''typescript'', \<lparr>domain = ''typescriptlang.org'', aliases = [''ts''], category = ''Language''\<rparr>),
    (''flutter'', \<lparr>domain = ''flutter.dev'', aliases = [], category = ''Framework''\<rparr>),
    (''django'', \<lparr>domain = ''djangoproject.com'', aliases = [''django project''], category = ''Framework''\<rparr>),
    (''flask'', \<lparr>domain = ''flask.palletsprojects.com'', aliases = [], category = ''Framework''\<rparr>),
    (''fastapi'', \<lparr>domain = ''fastapi.tiangolo.com'', aliases = [''fast api''], category = ''Framework''\<rparr>),
    (''rails'', \<lparr>domain = ''rubyonrails.org'', aliases = [''ruby on rails'', ''ror''], category = ''Framework''\<rparr>),
    (''laravel'', \<lparr>domain = ''laravel.com'', aliases = [], category = ''Framework''\<rparr>),
    (''spring'', \<lparr>domain = ''spring.io'', aliases = [''spring boot''], category = ''Framework''\<rparr>),
    (''express'', \<lparr>domain = ''expressjs.com'', aliases = [''express.js'', ''expressjs''], category = ''Framework''\<rparr>),
    (''s3'', \<lparr>domain = ''aws.amazon.com/s3'', aliases = [''amazon s3'', ''aws s3''], category = ''Storage''\<rparr>),
    (''cloudinary'', \<lparr>domain = ''cloudinary.com'', aliases = [], category = ''Storage''\<rparr>),
    (''imgix'', \<lparr>domain = ''imgix.com'', aliases = [], category = ''Storage''\<rparr>),
    (''uploadcare'', \<lparr>domain = ''uploadcare.com'', aliases = [''upload care''], category = ''Storage''\<rparr>),
    (''mux'', \<lparr>domain = ''mux.com'', aliases = [], category = ''Storage''\<rparr>),
    (''bunnycdn'', \<lparr>domain = ''bunny.net'', aliases = [''bunny cdn'', ''bunny.net''], category = ''CDN''\<rparr>),
    (''fastly'', \<lparr>domain = ''fastly.com'', aliases = [], category = ''CDN''\<rparr>),
    (''wordpress'', \<lparr>domain = ''wordpress.org'', aliases = [''wp''], category = ''CMS''\<rparr>),
    (''contentful'', \<lparr>domain = ''contentful.com'', aliases = [], category = ''CMS''\<rparr>),
    (''strapi'', \<lparr>domain = ''strapi.io'', aliases = [], category = ''CMS''\<rparr>),
    (''sanity'', \<lparr>domain = ''sanity.io'', aliases = [], category = ''CMS''\<rparr>),
    (''ghost'', \<lparr>domain = ''ghost.org'', aliases = [], category = ''CMS''\<rparr>),
    (''prismic'', \<lparr>domain = ''prismic.io'', aliases = [], category = ''CMS''\<rparr>),
    (''webflow'', \<lparr>domain = ''webflow.com'', aliases = [''web flow''], category = ''CMS''\<rparr>),
    (''drupal'', \<lparr>domain = ''drupal.org'', aliases = [], category = ''CMS''\<rparr>),
    (''directus'', \<lparr>domain = ''directus.io'', aliases = [], category = ''CMS''\<rparr>),
    (''sap'', \<lparr>domain = ''sap.com'', aliases = [], category = ''ERP''\<rparr>),
    (''oracle'', \<lparr>domain = ''oracle.com'', aliases = [], category = ''ERP''\<rparr>),
    (''netsuite'', \<lparr>domain = ''netsuite.com'', aliases = [''net suite''], category = ''ERP''\<rparr>),
    (''quickbooks'', \<lparr>domain = ''quickbooks.intuit.com'', aliases = [''quick books'', ''intuit''], category = ''ERP''\<rparr>),
    (''xero'', \<lparr>domain = ''xero.com'', aliases = [], category = ''ERP''\<rparr>),
    (''freshbooks'', \<lparr>domain = ''freshbooks.com'', aliases = [''fresh books''], category = ''ERP''\<rparr>),
    (''spotify'', \<lparr>domain = ''spotify.com'', aliases = [], category = ''Entertainment''\<rparr>),
    (''netflix'', \<lparr>domain = ''netflix.com'', aliases = [], category = ''Entertainment''\<rparr>),
    (''apple'', \<lparr>domain = ''apple.com'', aliases = [], category = ''Tech''\<rparr>),
    (''microsoft'', \<lparr>domain = ''microsoft.com'', aliases = [''ms''], category = ''Tech''\<rparr>),
    (''ibm'', \<lparr>domain = ''ibm.com'', aliases = [], category = ''Tech''\<rparr>),
    (''intel'', \<lparr>domain = ''intel.com'', aliases = [], category = ''Tech''\<rparr>),
    (''nvidia'', \<lparr>domain = ''nvidia.com'', aliases = [], category = ''Tech''\<rparr>),
    (''tesla'', \<lparr>domain = ''tesla.com'', aliases = [], category = ''Tech''\<rparr>),
    (''uber'', \<lparr>domain = ''uber.com'', aliases = [], category = ''Tech''\<rparr>),
    (''airbnb'', \<lparr>domain = ''airbnb.com'', aliases = [], category = ''Tech''\<rparr>),
    (''dropbox'', \<lparr>domain = ''dropbox.com'', aliases = [], category = ''Tech''\<rparr>),
    (''box'', \<lparr>domain = ''box.com'', aliases = [], category = ''Tech''\<rparr>),
    (''twitch'', \<lparr>domain = ''twitch.tv'', aliases = [], category = ''Entertainment''\<rparr>),
    (''epic'', \<lparr>domain = ''epicgames.com'', aliases = [''epic games''], category = ''Entertainment''\<rparr>),
    (''unity'', \<lparr>domain = ''unity.com'', aliases = [''unity3d''], category = ''DevTools''\<rparr>),
    (''unreal'', \<lparr>domain = ''unrealengine.com'', aliases = [''unreal engine'', ''ue''], category = ''DevTools''\<rparr>),
    (''godot'', \<lparr>domain = ''godotengine.org'', aliases = [''godot engine''], category = ''DevTools''\<rparr>)]"


text \<open>
  Reading \<open>COMPANY_DATABASE[k]\<close> also finds what the object inherits from
  \<open>Object.prototype\<close>: for such a name the result is a function or an object that is
  not an entry, truthy, whose \<open>domain\<close> and \<open>category\<close> are \<open>undefined\<close>.
\<close>

definition objectPrototypeNames :: "string list" where
  "objectPrototypeNames =
     [''constructor'', ''__defineGetter__'', ''__defineSetter__'', ''hasOwnProperty'',
      ''__lookupGetter__'', ''__lookupSetter__'', ''isPrototypeOf'', ''propertyIsEnumerable'',
      ''toString'', ''valueOf'', ''__proto__'', ''toLocaleString'']"

datatype 'a property = Own 'a | Inherited | Missing

definition dbGet :: "string \<Rightarrow> CompanyEntry property" where
  "dbGet k =
     (case map_of COMPANY_DATABASE k of
        Some e \<Rightarrow> Own e
      | None \<Rightarrow> if k \<in> set objectPrototypeNames then Inherited else Missing)"

section \<open>Resolution engine\<close>

datatype Confidence = Exact | Alias | Fuzzy | LiveSearch | Inferred

text \<open>In \<open>ResolvedDomain\<close> a field that can be \<open>undefined\<close> is an option.\<close>

record ResolvedDomain =
  rdomain :: "string option"
  company :: string
  rcategory :: "string option"
  confidence :: Confidence
  matchedName :: string

text \<open>\<open>normalize\<close>: lowercase, trim, remove \<open>.\<close>, \<open>_\<close> and \<open>-\<close>, collapse white space.\<close>

definition normalize :: "string \<Rightarrow> string" where
  "normalize input =
     collapseWhiteSpace
       (filter (\<lambda>c. c \<notin> set [CHR ''.'', CHR ''_'', CHR ''-'']) (trim (toLowerCase input)))"

text \<open>Tier 2: the first alias, in the order of the entries, whose normal form is the input's.\<close>

fun findAlias :: "string list \<Rightarrow> string \<Rightarrow> string option" where
  "findAlias [] normalized = None"
| "findAlias (alias # rest) normalized =
     (if normalize alias = normalized then Some alias else findAlias rest normalized)"

fun aliasMatch :: "(string \<times> CompanyEntry) list \<Rightarrow> string \<Rightarrow> ResolvedDomain option" where
  "aliasMatch [] normalized = None"
| "aliasMatch ((key, entry) # rest) normalized =
     (case findAlias (aliases entry) normalized of
        Some alias \<Rightarrow>
          Some \<lparr>rdomain = Some (domain entry), company = key, rcategory = Some (category entry),
                confidence = Alias, matchedName = alias\<rparr>
      | None \<Rightarrow> aliasMatch rest normalized)"

text \<open>Tier 3: the loop over keys and aliases, with the variable \<open>bestMatch\<close> as state.\<close>

record BestMatch =
  bkey :: string
  bentry :: CompanyEntry
  dist :: nat
  via :: string

definition improves :: "nat \<Rightarrow> BestMatch option \<Rightarrow> bool" where
  "improves d best = (d \<le> 2 \<and> (case best of None \<Rightarrow> True | Some b \<Rightarrow> d < dist b))"

fun fuzzyAliases ::
  "string \<Rightarrow> string \<Rightarrow> CompanyEntry \<Rightarrow> string list \<Rightarrow> BestMatch option \<Rightarrow> BestMatch option" where
  "fuzzyAliases normalized key entry [] best = best"
| "fuzzyAliases normalized key entry (alias # rest) best =
     (let aliasDist = distance normalized (normalize alias)
      in fuzzyAliases normalized key entry rest
           (if improves aliasDist best
            then Some \<lparr>bkey = key, bentry = entry, dist = aliasDist, via = alias\<rparr>
            else best))"

fun fuzzyScan ::
  "(string \<times> CompanyEntry) list \<Rightarrow> string \<Rightarrow> BestMatch option \<Rightarrow> BestMatch option" where
  "fuzzyScan [] normalized best = best"
| "fuzzyScan ((key, entry) # rest) normalized best =
     (let keyDist = distance normalized key;
          best1 = (if improves keyDist best
                   then Some \<lparr>bkey = key, bentry = entry, dist = keyDist, via = key\<rparr>
                   else best)
      in fuzzyScan rest normalized (fuzzyAliases normalized key entry (aliases entry) best1))"

text \<open>Tier 5: \<open>{name}.com\<close> from the normal form without its white space.\<close>

definition inferDomain :: "string \<Rightarrow> string \<Rightarrow> ResolvedDomain" where
  "inferDomain normalized input =
     (let sanitized = filter (\<lambda>c. \<not> isWhiteSpace c) normalized
      in \<lparr>rdomain = Some (sanitized @ ''.com''), company = sanitized,
          rcategory = Some ''Unknown'', confidence = Inferred, matchedName = input\<rparr>)"

text \<open>
  \<open>resolveDomain\<close>. The live search of tier 4 is a network request: its outcome is the
  parameter \<open>searchWebForDomain\<close>, the domain found for the raw input or \<open>None\<close> for
  \<open>null\<close>. A result that is the empty string is falsy and falls through like \<open>null\<close>.
\<close>

definition resolveDomain :: "(string \<Rightarrow> string option) \<Rightarrow> string \<Rightarrow> ResolvedDomain" where
  "resolveDomain searchWebForDomain input =
     (let normalized = normalize input in
      case dbGet normalized of
        Own entry \<Rightarrow>
          \<lparr>rdomain = Some (domain entry), company = normalized,
           rcategory = Some (category entry), confidence = Exact, matchedName = normalized\<rparr>
      | Inherited \<Rightarrow>
          \<lparr>rdomain = None, company = normalized, rcategory = None, confidence = Exact,
           matchedName = normalized\<rparr>
      | Missing \<Rightarrow>
         (case aliasMatch COMPANY_DATABASE normalized of
            Some r \<Rightarrow> r
          | None \<Rightarrow>
             (case fuzzyScan COMPANY_DATABASE normalized None of
                Some b \<Rightarrow>
                  \<lparr>rdomain = Some (domain (bentry b)), company = bkey b,
                   rcategory = Some (category (bentry b)), confidence = Fuzzy,
                   matchedName = via b\<rparr>
              | None \<Rightarrow>
                 (case searchWebForDomain input of
                    Some liveDomain \<Rightarrow>
                      if liveDomain \<noteq> []
                      then \<lparr>rdomain = Some liveDomain, company = input,
                            rcategory = Some ''Unknown (Live Search)'', confidence = LiveSearch,
                            matchedName = input\<rparr>
                      else inferDomain normalized input
                  | None \<Rightarrow> inferDomain normalized input))))"

subsection \<open>The database as the tiers see it\<close>

text \<open>
  The normal forms of all aliases, and the candidates of the fuzzy tier in the order the
  loop visits them: for every entry its key, then its aliases, each with its distance from
  the normalized input. \<open>pick\<close> is one step of the loop on \<open>bestMatch\<close>.
\<close>

definition aliasNames :: "(string \<times> CompanyEntry) list \<Rightarrow> string list" where
  "aliasNames db = concat (map (\<lambda>(k, e). map normalize (aliases e)) db)"

definition entryCandidates :: "string \<Rightarrow> string \<Rightarrow> CompanyEntry \<Rightarrow> BestMatch list" where
  "entryCandidates normalized key entry =
     \<lparr>bkey = key, bentry = entry, dist = distance normalized key, via = key\<rparr> #
     map (\<lambda>alias. \<lparr>bkey = key, bentry = entry, dist = distance normalized (normalize alias), via = alias\<rparr>)
       (aliases entry)"

definition candidates :: "string \<Rightarrow> (string \<times> CompanyEntry) list \<Rightarrow> BestMatch list" where
  "candidates normalized db = concat (map (\<lambda>(k, e). entryCandidates normalized k e) db)"

definition candidateNames :: "(string \<times> CompanyEntry) list \<Rightarrow> string list" where
  "candidateNames db = concat (map (\<lambda>(k, e). k # map normalize (aliases e)) db)"

definition pick :: "BestMatch option \<Rightarrow> BestMatch \<Rightarrow> BestMatch option" where
  "pick best c = (if improves (dist c) best then Some c else best)"


text \<open>A live search that finds nothing, and the characters a normal form can hold.\<close>

definition noLiveResult :: "string \<Rightarrow> string option" where
  "noLiveResult companyName = None"

definition lowerish :: "char \<Rightarrow> bool" where
  "lowerish c = (c \<noteq> CHR ''_'' \<and> \<not> (65 \<le> (of_char c :: nat) \<and> (of_char c :: nat) \<le> 90))"

section \<open>Company search\<close>









subsection \<open>The scoring rules as the specification words them\<close>








section \<open>Image validator\<close>

text \<open>
  A \<open>Buffer\<close> is a list of bytes. \<open>IMAGE_SIGNATURES\<close> is the table of magic bytes, in the
  order of the source.
\<close>

type_synonym buffer = "8 word list"

record ImageSignature =
  bytes :: "8 word list"
  offset :: nat
  format :: string
  extension :: string
  mimeType :: string

definition IMAGE_SIGNATURES :: "ImageSignature list" where
  "IMAGE_SIGNATURES = [
     \<lparr>bytes = [0x89, 0x50, 0x4e, 0x47], offset = 0, format = ''PNG'', extension = ''png'',
      mimeType = ''image/png''\<rparr>,
     \<lparr>bytes = [0xff, 0xd8, 0xff], offset = 0, format = ''JPEG'', extension = ''jpg'',
      mimeType = ''image/jpeg''\<rparr>,
     \<lparr>bytes = [0x47, 0x49, 0x46, 0x38, 0x37, 0x61], offset = 0, format = ''GIF'',
      extension = ''gif'', mimeType = ''image/gif''\<rparr>,
     \<lparr>bytes = [0x47, 0x49, 0x46, 0x38, 0x39, 0x61], offset = 0, format = ''GIF'',
      extension = ''gif'', mimeType = ''image/gif''\<rparr>,
     \<lparr>bytes = [0x52, 0x49, 0x46, 0x46], offset = 0, format = ''WEBP'', extension = ''webp'',
      mimeType = ''image/webp''\<rparr>,
     \<lparr>bytes = [0x00, 0x00, 0x01, 0x00], offset = 0, format = ''ICO'', extension = ''ico'',
      mimeType = ''image/x-icon''\<rparr>,
     \<lparr>bytes = [0x42, 0x4d], offset = 0, format = ''BMP'', extension = ''bmp'',
      mimeType = ''image/bmp''\<rparr>,
     \<lparr>bytes = [0x49, 0x49, 0x2a, 0x00], offset = 0, format = ''TIFF'', extension = ''tiff'',
      mimeType = ''image/tiff''\<rparr>,
     \<lparr>bytes = [0x4d, 0x4d, 0x00, 0x2a], offset = 0, format = ''TIFF'', extension = ''tiff'',
      mimeType = ''image/tiff''\<rparr>,
     \<lparr>bytes = [0x66, 0x74, 0x79, 0x70, 0x61, 0x76, 0x69, 0x66], offset = 4, format = ''AVIF'',
      extension = ''avif'', mimeType = ''image/avif''\<rparr>]"

record ImageInfo =
  iformat :: string
  iextension :: string
  imimeType :: string
  sizeBytes :: nat
  isValid :: bool
  isSvg :: bool

text \<open>
  The reason of a rejection is a fixed text, one constructor for each:
  \<open>EmptyBuffer\<close> for "Empty buffer - no data received", \<open>TooSmall n\<close> for
  "Buffer too small (n bytes) - likely a placeholder", \<open>HtmlContent\<close> for "Content is HTML,
  not an image - likely an error page", \<open>UnknownFormat\<close> for "Unknown format - could not
  identify image type from file header".
\<close>

datatype reason = EmptyBuffer | TooSmall nat | HtmlContent | UnknownFormat

record ValidationResult =
  valid :: bool
  info :: "ImageInfo option"
  reason :: "reason option"

text \<open>
  The inner loop of \<open>detectFormat\<close> compares the bytes of one signature from position
  \<open>pos\<close> on and stops at the first difference; a read past the end of the buffer is
  \<open>undefined\<close> and differs from every byte.
\<close>

fun sigMatches :: "buffer \<Rightarrow> nat \<Rightarrow> 8 word list \<Rightarrow> bool" where
  "sigMatches buffer pos [] = True"
| "sigMatches buffer pos (b # bs) =
     (if pos < length buffer \<and> buffer ! pos = b then sigMatches buffer (Suc pos) bs else False)"

fun detectIn :: "ImageSignature list \<Rightarrow> buffer \<Rightarrow> ImageSignature option" where
  "detectIn [] buffer = None"
| "detectIn (sig # sigs) buffer =
     (if length buffer < offset sig + length (bytes sig) then detectIn sigs buffer
      else if sigMatches buffer (offset sig) (bytes sig) then Some sig
      else detectIn sigs buffer)"

definition detectFormat :: "buffer \<Rightarrow> ImageSignature option" where
  "detectFormat buffer = detectIn IMAGE_SIGNATURES buffer"

text \<open>
  \<open>isSvgContent\<close> and \<open>isHtmlContent\<close> read the head of the buffer as text. The decoder
  \<open>buffer.toString("utf-8")\<close> belongs to the platform (it replaces malformed input and can
  produce code units beyond the range of the string model): it is the parameter
  \<open>toStringUtf8\<close> of the validator.
\<close>

definition isSvgContent :: "(buffer \<Rightarrow> string) \<Rightarrow> buffer \<Rightarrow> bool" where
  "isSvgContent toStringUtf8 buffer =
     (let text = trim (toStringUtf8 (take (min (length buffer) 1024) buffer))
      in (startsWith text ''<?xml'' \<and> includes_str text ''<svg'') \<or>
         startsWith text ''<svg'' \<or>
         includes_str text (''xmlns='' @ [CHR 0x22] @ ''http://www.w3.org/2000/svg'' @ [CHR 0x22]))"

definition isHtmlContent :: "(buffer \<Rightarrow> string) \<Rightarrow> buffer \<Rightarrow> bool" where
  "isHtmlContent toStringUtf8 buffer =
     (let text = toLowerCase (trim (toStringUtf8 (take (min (length buffer) 512) buffer)))
      in startsWith text ''<!doctype html'' \<or>
         startsWith text ''<html'' \<or>
         startsWith text ''<!doctype'' \<or>
         (includes_str text ''<head>'' \<and> includes_str text ''<body''))"

definition validateImage :: "(buffer \<Rightarrow> string) \<Rightarrow> buffer \<Rightarrow> ValidationResult" where
  "validateImage toStringUtf8 buffer =
     (if length buffer = 0 then \<lparr>valid = False, info = None, reason = Some EmptyBuffer\<rparr>
      else if length buffer < 100
        then \<lparr>valid = False, info = None, reason = Some (TooSmall (length buffer))\<rparr>
      else if isHtmlContent toStringUtf8 buffer
        then \<lparr>valid = False, info = None, reason = Some HtmlContent\<rparr>
      else if isSvgContent toStringUtf8 buffer
        then \<lparr>valid = True,
              info = Some \<lparr>iformat = ''SVG'', iextension = ''svg'', imimeType = ''image/svg+xml'',
                           sizeBytes = length buffer, isValid = True, isSvg = True\<rparr>,
              reason = None\<rparr>
      else (case detectFormat buffer of
              Some sig \<Rightarrow>
                \<lparr>valid = True,
                 info = Some \<lparr>iformat = format sig, iextension = extension sig,
                              imimeType = mimeType sig, sizeBytes = length buffer,
                              isValid = True, isSvg = False\<rparr>,
                 reason = None\<rparr>
            | None \<Rightarrow> \<lparr>valid = False, info = None, reason = Some UnknownFormat\<rparr>))"

text \<open>
  A decoder for buffers of ASCII bytes, on which it agrees with UTF-8, and the head of a
  WAV audio file (a RIFF container of 44 header bytes and 64 bytes of silence).
\<close>

definition asciiText :: "buffer \<Rightarrow> string" where
  "asciiText buffer = map (\<lambda>b. char_of (unat b)) buffer"

definition wavFile :: buffer where
  "wavFile =
     [0x52, 0x49, 0x46, 0x46, 0x64, 0x00, 0x00, 0x00, 0x57, 0x41, 0x56, 0x45,
      0x66, 0x6d, 0x74, 0x20, 0x10, 0x00, 0x00, 0x00, 0x01, 0x00, 0x01, 0x00,
      0x44, 0x2c, 0x00, 0x00, 0x08, 0x58, 0x00, 0x00, 0x02, 0x00, 0x10, 0x00,
      0x64, 0x61, 0x74, 0x61, 0x40, 0x00, 0x00, 0x00] @ replicate 64 0x00"

definition tinyGif :: buffer where
  "tinyGif = [0x47, 0x49, 0x46, 0x38, 0x39, 0x61, 0x01, 0x00, 0x01, 0x00] @ replicate 25 0x00"

section \<open>Logo fetcher\<close>

datatype LogoSize = Small | Medium | Large

definition SIZE_MAP :: "LogoSize \<Rightarrow> nat" where
  "SIZE_MAP logoSize = (case logoSize of Small \<Rightarrow> 64 | Medium \<Rightarrow> 128 | Large \<Rightarrow> 256)"

text \<open>
  The message of an error, one constructor for each text the fetcher builds:
  \<open>Rejected r\<close> is the reason \<open>r\<close> of the validator, \<open>Thrown m\<close> an error of the platform
  (a failed or aborted request, a malformed JSON body) with its message,
  \<open>HttpError status statusText\<close> is "HTTP status: statusText", \<open>InvalidImageFrom s\<close> is
  "Invalid image from s", \<open>GooglePlaceholder\<close> is "Google returned a generic placeholder
  icon", \<open>DdgHttp status\<close> is "DDG API HTTP status", \<open>DdgNoImage\<close> is "No logo image found
  in DuckDuckGo response", \<open>InvalidImage\<close> is "Invalid image", \<open>NoValidFavicon\<close> is "No
  valid favicon found at any common path", and \<open>AllSourcesFailed n\<close> is "Failed to download
  logo from all n sources".
\<close>

datatype message =
    Rejected reason
  | Thrown string
  | HttpError nat string
  | InvalidImageFrom string
  | GooglePlaceholder
  | DdgHttp nat
  | DdgNoImage
  | InvalidImage
  | NoValidFavicon
  | AllSourcesFailed nat

record LogoResult =
  lbuffer :: buffer
  imageInfo :: "ImageInfo option"
  source :: string
  sourceUrl :: string

record FetchAttempt =
  asource :: string
  aurl :: string
  asuccess :: bool
  aerror :: "message option"
  durationMs :: int

record LogoFetchResult =
  success :: bool
  logo :: "LogoResult option"
  attempts :: "FetchAttempt list"
  error :: "message option"

subsection \<open>The world outside\<close>

text \<open>
  The network and the clock are oracles. Every request and every reading of the clock is
  one event, and the events of a run are numbered: a function that has effects takes the
  number of its first event and returns, with its result, the number of the next one.
  \<open>fetch env t url timeoutMs\<close> is the outcome of a request issued as event \<open>t\<close> under a
  timer of \<open>timeoutMs\<close>: \<open>Inl\<close> the message when \<open>fetch\<close> rejects (no connection, or the
  timer aborted it), or the response, whose body may fail to arrive. \<open>jsonImage\<close> parses
  a body as JSON and reads its field \<open>Image\<close> (\<open>Inl\<close> when the body is no JSON);
  \<open>encodeURIComponent\<close> and the UTF-8 decoder are the platform's; \<open>dateNow env t\<close> is what
  \<open>Date.now()\<close> reads as event \<open>t\<close>.
\<close>

record HttpResponse =
  ok :: bool
  status :: nat
  statusText :: string
  body :: "string + buffer"

record env =
  fetch :: "nat \<Rightarrow> string \<Rightarrow> nat \<Rightarrow> string + HttpResponse"
  jsonImage :: "buffer \<Rightarrow> string + string option"
  encodeURIComponent :: "string \<Rightarrow> string"
  decodeUtf8 :: "buffer \<Rightarrow> string"
  dateNow :: "nat \<Rightarrow> int"

text \<open>A number in a template string.\<close>

function natToString :: "nat \<Rightarrow> string" where
  "natToString n =
     (if n < 10 then [char_of (48 + n)]
      else natToString (n div 10) @ [char_of (48 + n mod 10)])"
  by pat_completeness auto
termination
  by (relation "measure id") auto

text \<open>\<open>fetchBuffer\<close>: one request; a response that is not ok and a body that fails both throw.\<close>

definition fetchBuffer :: "env \<Rightarrow> nat \<Rightarrow> string \<Rightarrow> nat \<Rightarrow> (message + buffer) \<times> nat" where
  "fetchBuffer e t url timeoutMs =
     (case fetch e t url timeoutMs of
        Inl m \<Rightarrow> (Inl (Thrown m), Suc t)
      | Inr response \<Rightarrow>
          if \<not> ok response
          then (Inl (HttpError (status response) (statusText response)), Suc t)
          else (case body response of
                  Inl m \<Rightarrow> (Inl (Thrown m), Suc t)
                | Inr buf \<Rightarrow> (Inr buf, Suc t)))"

text \<open>The message thrown for a buffer the validator rejects: its reason, or the fallback.\<close>

definition rejection :: "ValidationResult \<Rightarrow> message \<Rightarrow> message" where
  "rejection validation fallback =
     (case reason validation of Some r \<Rightarrow> Rejected r | None \<Rightarrow> fallback)"

subsection \<open>The four sources\<close>

definition fetchFromClearbit ::
  "env \<Rightarrow> nat \<Rightarrow> string \<Rightarrow> LogoSize \<Rightarrow> (message + LogoResult) \<times> nat" where
  "fetchFromClearbit e t domainName logoSize =
     (let sizeParam = SIZE_MAP logoSize * 2;
          url = ''https://logo.clearbit.com/'' @ domainName @ ''?size='' @
                natToString sizeParam @ ''&format=png'';
          (r, t1) = fetchBuffer e t url 10000
      in case r of
           Inl m \<Rightarrow> (Inl m, t1)
         | Inr buf \<Rightarrow>
             (let validation = validateImage (decodeUtf8 e) buf
              in if \<not> valid validation
                 then (Inl (rejection validation (InvalidImageFrom ''Clearbit'')), t1)
                 else (Inr \<lparr>lbuffer = buf, imageInfo = info validation,
                            source = ''Clearbit Logo API'', sourceUrl = url\<rparr>, t1)))"

definition fetchFromGoogle ::
  "env \<Rightarrow> nat \<Rightarrow> string \<Rightarrow> LogoSize \<Rightarrow> (message + LogoResult) \<times> nat" where
  "fetchFromGoogle e t domainName logoSize =
     (let sz = min (SIZE_MAP logoSize * 2) 256;
          url = ''https://www.google.com/s2/favicons?domain='' @ domainName @ ''&sz='' @
                natToString sz;
          (r, t1) = fetchBuffer e t url 10000
      in case r of
           Inl m \<Rightarrow> (Inl m, t1)
         | Inr buf \<Rightarrow>
             (let validation = validateImage (decodeUtf8 e) buf
              in if \<not> valid validation
                 then (Inl (rejection validation (InvalidImageFrom ''Google'')), t1)
                 else if length buf < 500 \<and> logoSize \<noteq> Small
                 then (Inl GooglePlaceholder, t1)
                 else (Inr \<lparr>lbuffer = buf, imageInfo = info validation,
                            source = ''Google Favicon Service'', sourceUrl = url\<rparr>, t1)))"

definition fetchFromDuckDuckGo ::
  "env \<Rightarrow> nat \<Rightarrow> string \<Rightarrow> LogoSize \<Rightarrow> (message + LogoResult) \<times> nat" where
  "fetchFromDuckDuckGo e t companyName logoSize =
     (let query = encodeURIComponent e (companyName @ '' company'');
          apiUrl = ''https://api.duckduckgo.com/?q='' @ query @ ''&format=json&no_html=1''
      in case fetch e t apiUrl 10000 of
           Inl m \<Rightarrow> (Inl (Thrown m), Suc t)
         | Inr response \<Rightarrow>
             if \<not> ok response then (Inl (DdgHttp (status response)), Suc t)
             else (case body response of
                     Inl m \<Rightarrow> (Inl (Thrown m), Suc t)
                   | Inr json \<Rightarrow>
                      (case jsonImage e json of
                         Inl m \<Rightarrow> (Inl (Thrown m), Suc t)
                       | Inr None \<Rightarrow> (Inl DdgNoImage, Suc t)
                       | Inr (Some imageUrl) \<Rightarrow>
                           if imageUrl = [] then (Inl DdgNoImage, Suc t)
                           else
                            (let fullUrl = (if startsWith imageUrl ''http'' then imageUrl
                                            else ''https://duckduckgo.com'' @ imageUrl);
                                 (r, t1) = fetchBuffer e (Suc t) fullUrl 10000
                             in case r of
                                  Inl m \<Rightarrow> (Inl m, t1)
                                | Inr buf \<Rightarrow>
                                    (let validation = validateImage (decodeUtf8 e) buf
                                     in if \<not> valid validation
                                        then (Inl (rejection validation
                                                     (InvalidImageFrom ''DuckDuckGo'')), t1)
                                        else (Inr \<lparr>lbuffer = buf, imageInfo = info validation,
                                                   source = ''DuckDuckGo Instant Answer'',
                                                   sourceUrl = fullUrl\<rparr>, t1))))))"

text \<open>
  \<open>fetchDirectFavicon\<close>: the loop over the conventional paths, with \<open>lastError\<close> as state;
  when no path gives a valid image the last error is thrown.
\<close>

fun faviconLoop ::
  "env \<Rightarrow> nat \<Rightarrow> string \<Rightarrow> string list \<Rightarrow> message option \<Rightarrow> (message + LogoResult) \<times> nat" where
  "faviconLoop e t domainName [] lastError =
     (Inl (case lastError of Some m \<Rightarrow> m | None \<Rightarrow> NoValidFavicon), t)"
| "faviconLoop e t domainName (path # rest) lastError =
     (let url = ''https://'' @ domainName @ path;
          (r, t1) = fetchBuffer e t url 8000
      in case r of
           Inl m \<Rightarrow> faviconLoop e t1 domainName rest (Some m)
         | Inr buf \<Rightarrow>
             (let validation = validateImage (decodeUtf8 e) buf
              in if valid validation
                 then (Inr \<lparr>lbuffer = buf, imageInfo = info validation,
                            source = ''Direct Favicon'', sourceUrl = url\<rparr>, t1)
                 else faviconLoop e t1 domainName rest
                        (Some (rejection validation InvalidImage))))"

definition fetchDirectFavicon ::
  "env \<Rightarrow> nat \<Rightarrow> string \<Rightarrow> LogoSize \<Rightarrow> (message + LogoResult) \<times> nat" where
  "fetchDirectFavicon e t domainName logoSize =
     faviconLoop e t domainName
       [''/apple-touch-icon.png'', ''/apple-touch-icon-precomposed.png'',
        ''/favicon-32x32.png'', ''/favicon.ico'']
       None"

subsection \<open>The pipeline\<close>

record SourceConfig =
  sname :: string
  fn :: "env \<Rightarrow> nat \<Rightarrow> string \<Rightarrow> LogoSize \<Rightarrow> (message + LogoResult) \<times> nat"
  usesCompanyName :: bool

definition SOURCES :: "SourceConfig list" where
  "SOURCES = [
     \<lparr>sname = ''Clearbit'', fn = fetchFromClearbit, usesCompanyName = False\<rparr>,
     \<lparr>sname = ''Google Favicon'', fn = fetchFromGoogle, usesCompanyName = False\<rparr>,
     \<lparr>sname = ''DuckDuckGo'', fn = fetchFromDuckDuckGo, usesCompanyName = True\<rparr>,
     \<lparr>sname = ''Direct Favicon'', fn = fetchDirectFavicon, usesCompanyName = False\<rparr>]"

text \<open>
  The loop of \<open>fetchLogo\<close> over the sources still to try, with the array \<open>attempts\<close> as
  state. One turn reads the clock, runs the source, reads the clock again and either
  returns or goes on to the next source; after the last source the failure is returned.
\<close>

fun fetchLoop ::
  "env \<Rightarrow> nat \<Rightarrow> SourceConfig list \<Rightarrow> string \<Rightarrow> string \<Rightarrow> LogoSize \<Rightarrow> FetchAttempt list \<Rightarrow>
     LogoFetchResult \<times> nat" where
  "fetchLoop e t [] domainName companyName logoSize tried =
     (\<lparr>success = False, logo = None, attempts = tried,
       error = Some (AllSourcesFailed (length SOURCES))\<rparr>, t)"
| "fetchLoop e t (src # rest) domainName companyName logoSize tried =
     (let start = dateNow e t;
          input = (if usesCompanyName src then companyName else domainName);
          (r, t1) = fn src e (Suc t) input logoSize
      in case r of
           Inr found \<Rightarrow>
             (\<lparr>success = True, logo = Some found,
               attempts = tried @
                 [\<lparr>asource = sname src, aurl = sourceUrl found, asuccess = True, aerror = None,
                   durationMs = dateNow e t1 - start\<rparr>],
               error = None\<rparr>, Suc t1)
         | Inl m \<Rightarrow>
             fetchLoop e (Suc t1) rest domainName companyName logoSize
               (tried @
                 [\<lparr>asource = sname src, aurl = ''['' @ sname src @ ''] '' @ input,
                   asuccess = False, aerror = Some m, durationMs = dateNow e t1 - start\<rparr>]))"

text \<open>\<open>fetchLogo(domain, company, size = "large")\<close>, started as event \<open>t\<close>.\<close>

definition fetchLogo ::
  "env \<Rightarrow> nat \<Rightarrow> string \<Rightarrow> string \<Rightarrow> LogoSize option \<Rightarrow> LogoFetchResult \<times> nat" where
  "fetchLogo e t domainName companyName optSize =
     fetchLoop e t SOURCES domainName companyName
       (case optSize of Some s \<Rightarrow> s | None \<Rightarrow> Large) []"

subsection \<open>Two worlds to run the pipeline in\<close>


definition notFound :: HttpResponse where
  "notFound = \<lparr>ok = False, status = 404, statusText = ''Not Found'', body = Inr []\<rparr>"

definition encodeSpaces :: "string \<Rightarrow> string" where
  "encodeSpaces s = concat (map (\<lambda>c. if c = CHR '' '' then ''%20'' else [c]) s)"


definition allDown :: env where
  "allDown =
     \<lparr>fetch = (\<lambda>t url timeoutMs. Inr notFound),
      jsonImage = (\<lambda>json. Inl ''Unexpected end of JSON input''),
      encodeURIComponent = encodeSpaces,
      decodeUtf8 = asciiText,
      dateNow = (\<lambda>t. 1000 * int t)\<rparr>"

section \<open>The edit distance\<close>

text \<open>The rows computed by \<open>distance\<close> are the rows of the recurrence.\<close>

lemma nextRow_lev:
  assumes "j0 \<le> length b" and "n = Suc (length b)"
  shows "nextRow (a ! i) (drop j0 b) (lev a b i j0) (map (lev a b i) [Suc j0 ..< n])
           (lev a b (Suc i) j0) =
         map (lev a b (Suc i)) [Suc j0 ..< n]"
  using assms(1)
proof (induction "length b - j0" arbitrary: j0)
  case 0
  then have "j0 = length b" by simp
  with assms(2) show ?case by simp
next
  case (Suc m)
  then have lt: "j0 < length b" by simp
  then have d: "drop j0 b = b ! j0 # drop (Suc j0) b" by (simp add: Cons_nth_drop_Suc)
  from lt assms(2) have u: "[Suc j0 ..< n] = Suc j0 # [Suc (Suc j0) ..< n]"
    by (simp add: upt_conv_Cons)
  from Suc.hyps(2) lt have m: "m = length b - Suc j0" by simp
  from lt have le: "Suc j0 \<le> length b" by simp
  note ih = Suc.hyps(1)[OF m le]
  have v: "min (min (lev a b i (Suc j0) + 1) (lev a b (Suc i) j0 + 1))
               (lev a b i j0 + (if a ! i = b ! j0 then 0 else 1)) = lev a b (Suc i) (Suc j0)"
    by simp
  show ?case
    unfolding d u by (simp only: list.map nextRow.simps Let_def v ih)
qed

lemma levRows_lev:
  assumes "i \<le> length a" and "n = Suc (length b)"
  shows "levRows (drop i a) b (map (lev a b i) [0 ..< n]) = map (lev a b (length a)) [0 ..< n]"
  using assms(1)
proof (induction "length a - i" arbitrary: i)
  case 0
  then have "i = length a" by simp
  then show ?case by simp
next
  case (Suc m)
  then have lt: "i < length a" by simp
  then have d: "drop i a = a ! i # drop (Suc i) a" by (simp add: Cons_nth_drop_Suc)
  from assms(2) have "0 < n" by simp
  then have u: "[0 ..< n] = 0 # [Suc 0 ..< n]"
    by (rule upt_conv_Cons)
  from Suc.hyps(2) lt have m: "m = length a - Suc i" by simp
  from lt have le: "Suc i \<le> length a" by simp
  have z: "lev a b i 0 = i" by (cases i) simp_all
  have z': "lev a b (Suc i) 0 = i + 1" by simp
  have nr: "nextRow (a ! i) b (lev a b i 0) (map (lev a b i) [Suc 0 ..< n]) (lev a b (Suc i) 0) =
            map (lev a b (Suc i)) [Suc 0 ..< n]"
    using nextRow_lev[of 0 b n a i] assms(2) by simp
  have "levRows (drop i a) b (map (lev a b i) [0 ..< n]) =
        levRows (drop (Suc i) a) b
          ((lev a b i 0 + 1) #
             nextRow (a ! i) b (lev a b i 0) (map (lev a b i) [Suc 0 ..< n]) (lev a b i 0 + 1))"
    unfolding d u by (simp only: list.map levRows.simps list.case)
  also have "(lev a b i 0 + 1) #
             nextRow (a ! i) b (lev a b i 0) (map (lev a b i) [Suc 0 ..< n]) (lev a b i 0 + 1) =
             map (lev a b (Suc i)) [0 ..< n]"
    using nr unfolding u by (simp add: z)
  also have "levRows (drop (Suc i) a) b (map (lev a b (Suc i)) [0 ..< n]) =
             map (lev a b (length a)) [0 ..< n]"
    by (rule Suc.hyps(1)[OF m le])
  finally show ?case .
qed

lemma distance_lev: "distance a b = lev a b (length a) (length b)"
proof -
  define n where "n = Suc (length b)"
  have "map (lev a b 0) [0 ..< n] = [0 ..< n]"
    by (simp add: map_idI)
  with levRows_lev[of 0 a n b] n_def
  have "levRows a b [0 ..< n] = map (lev a b (length a)) [0 ..< n]"
    by simp
  moreover have "[0 ..< n] \<noteq> []" "last [0 ..< n] = length b"
    unfolding n_def by simp_all
  ultimately show ?thesis
    unfolding distance_def n_def[symmetric] by (simp add: last_map)
qed

section \<open>Properties of the resolution engine\<close>

subsection \<open>The loops of tiers 2 and 3\<close>

lemma findAlias_None: "findAlias as n = None \<longleftrightarrow> n \<notin> normalize ` set as"
  by (induction as) auto

lemma findAlias_Some:
  "findAlias as n = Some a \<Longrightarrow>
     \<exists>as1 as2. as = as1 @ a # as2 \<and> normalize a = n \<and> n \<notin> normalize ` set as1"
proof (induction as)
  case Nil
  then show ?case by simp
next
  case (Cons x xs)
  show ?case
  proof (cases "normalize x = n")
    case True
    with Cons.prems have "a = x" by simp
    with True have "x # xs = [] @ a # xs \<and> normalize a = n \<and> n \<notin> normalize ` set []" by simp
    then show ?thesis by blast
  next
    case False
    with Cons.prems have "findAlias xs n = Some a" by simp
    from Cons.IH[OF this] obtain as1 as2 where
      h: "xs = as1 @ a # as2" "normalize a = n" "n \<notin> normalize ` set as1" by blast
    with False have "x # xs = (x # as1) @ a # as2 \<and> normalize a = n \<and> n \<notin> normalize ` set (x # as1)"
      by auto
    then show ?thesis by blast
  qed
qed

lemma aliasMatch_None: "aliasMatch db n = None \<longleftrightarrow> n \<notin> set (aliasNames db)"
  by (induction db) (auto simp: aliasNames_def findAlias_None split: option.splits)

lemma aliasMatch_Some:
  "aliasMatch db n = Some r \<Longrightarrow>
     \<exists>pre k e post as1 a as2.
        db = pre @ (k, e) # post \<and> n \<notin> set (aliasNames pre) \<and>
        aliases e = as1 @ a # as2 \<and> normalize a = n \<and> n \<notin> normalize ` set as1 \<and>
        r = \<lparr>rdomain = Some (domain e), company = k, rcategory = Some (category e),
             confidence = Alias, matchedName = a\<rparr>"
proof (induction db)
  case Nil
  then show ?case by simp
next
  case (Cons p db)
  obtain k e where p: "p = (k, e)" by (cases p)
  show ?case
  proof (cases "findAlias (aliases e) n")
    case None
    with Cons.prems p have "aliasMatch db n = Some r" by simp
    from Cons.IH[OF this] obtain pre k' e' post as1 a as2 where
      h: "db = pre @ (k', e') # post" "n \<notin> set (aliasNames pre)"
         "aliases e' = as1 @ a # as2" "normalize a = n" "n \<notin> normalize ` set as1"
         "r = \<lparr>rdomain = Some (domain e'), company = k', rcategory = Some (category e'),
             confidence = Alias, matchedName = a\<rparr>" by blast
    from None have "n \<notin> normalize ` set (aliases e)" by (simp add: findAlias_None)
    with h(2) p have "n \<notin> set (aliasNames (p # pre))" by (simp add: aliasNames_def)
    moreover from h(1) have "p # db = (p # pre) @ (k', e') # post" by simp
    ultimately show ?thesis using h(3-6) by blast
  next
    case (Some a)
    from findAlias_Some[OF Some] obtain as1 as2 where
      h: "aliases e = as1 @ a # as2" "normalize a = n" "n \<notin> normalize ` set as1" by blast
    from Some Cons.prems p have
      "r = \<lparr>rdomain = Some (domain e), company = k, rcategory = Some (category e),
             confidence = Alias, matchedName = a\<rparr>" by simp
    moreover have "p # db = [] @ (k, e) # db" "n \<notin> set (aliasNames [])"
      using p by (simp_all add: aliasNames_def)
    ultimately show ?thesis using h by blast
  qed
qed

lemma fuzzyAliases_foldl:
  "fuzzyAliases n k e as best =
     foldl pick best (map (\<lambda>alias. \<lparr>bkey = k, bentry = e, dist = distance n (normalize alias), via = alias\<rparr>) as)"
  by (induction as arbitrary: best) (simp_all add: pick_def Let_def)

lemma fuzzyScan_foldl: "fuzzyScan db n best = foldl pick best (candidates n db)"
  by (induction db arbitrary: best)
     (auto simp: candidates_def entryCandidates_def fuzzyAliases_foldl pick_def Let_def)

lemma foldl_pick_keep:
  "\<forall>x\<in>set xs. dist c \<le> dist x \<Longrightarrow> foldl pick (Some c) xs = Some c"
  by (induction xs) (auto simp: pick_def improves_def)

lemma foldl_pick_None: "\<forall>x\<in>set xs. 2 < dist x \<Longrightarrow> foldl pick None xs = None"
  by (induction xs) (auto simp: pick_def improves_def)

lemma foldl_pick_bound:
  "(case best of None \<Rightarrow> True | Some b \<Rightarrow> d < dist b) \<Longrightarrow> \<forall>x\<in>set xs. d < dist x \<Longrightarrow>
     (case foldl pick best xs of None \<Rightarrow> True | Some b \<Rightarrow> d < dist b)"
  by (induction xs arbitrary: best) (auto simp: pick_def split: option.splits)

lemma foldl_pick_first_min:
  assumes i: "i < length cs" and le2: "dist (cs ! i) \<le> 2"
    and mi: "\<forall>j<length cs. dist (cs ! i) \<le> dist (cs ! j)"
    and fi: "\<forall>j<i. dist (cs ! i) < dist (cs ! j)"
  shows "foldl pick None cs = Some (cs ! i)"
proof -
  have split: "cs = take i cs @ cs ! i # drop (Suc i) cs"
    using i by (simp add: id_take_nth_drop)
  have pre: "\<forall>x\<in>set (take i cs). dist (cs ! i) < dist x"
    using fi i by (auto simp: in_set_conv_nth)
  have post: "\<forall>x\<in>set (drop (Suc i) cs). dist (cs ! i) \<le> dist x"
    using mi by (auto simp: in_set_conv_nth)
  have "case foldl pick None (take i cs) of None \<Rightarrow> True | Some b \<Rightarrow> dist (cs ! i) < dist b"
    by (rule foldl_pick_bound) (use pre in simp_all)
  then have "pick (foldl pick None (take i cs)) (cs ! i) = Some (cs ! i)"
    using le2 by (auto simp: pick_def improves_def split: option.splits)
  then have "foldl pick None (take i cs @ cs ! i # drop (Suc i) cs) = Some (cs ! i)"
    using post by (simp add: foldl_pick_keep)
  with split show ?thesis by simp
qed

lemma first_min_exists:
  fixes f :: "'a \<Rightarrow> nat"
  assumes "xs \<noteq> []"
  shows "\<exists>i<length xs. (\<forall>j<length xs. f (xs ! i) \<le> f (xs ! j)) \<and> (\<forall>j<i. f (xs ! i) < f (xs ! j))"
proof -
  define m where "m = Min (f ` set xs)"
  have fin: "finite (f ` set xs)" "f ` set xs \<noteq> {}" using assms by auto
  have "m \<in> f ` set xs" unfolding m_def using fin by (rule Min_in)
  then obtain i0 where i0: "i0 < length xs" "f (xs ! i0) = m" by (auto simp: in_set_conv_nth)
  define i where "i = (LEAST k. k < length xs \<and> f (xs ! k) = m)"
  have P: "i < length xs \<and> f (xs ! i) = m"
    unfolding i_def by (rule LeastI[of _ i0]) (use i0 in simp)
  have least: "\<And>k. k < length xs \<Longrightarrow> f (xs ! k) = m \<Longrightarrow> i \<le> k"
    unfolding i_def by (rule Least_le) simp
  have mle: "\<And>j. j < length xs \<Longrightarrow> m \<le> f (xs ! j)"
    unfolding m_def using fin by (auto intro: Min_le)
  have "\<forall>j<i. f (xs ! i) < f (xs ! j)"
  proof (intro allI impI)
    fix j assume j: "j < i"
    then have jl: "j < length xs" using P by simp
    have "f (xs ! j) \<noteq> m" using least[OF jl] j by auto
    with mle[OF jl] P show "f (xs ! i) < f (xs ! j)" by simp
  qed
  with P mle show ?thesis by auto
qed

lemma toLowerChar_not_upper:
  "\<not> (65 \<le> (of_char (toLowerChar c) :: nat) \<and> (of_char (toLowerChar c) :: nat) \<le> 90)"
proof -
  have lt: "(of_char c :: nat) < 256" by simp
  show ?thesis
    using lt unfolding toLowerChar_def Let_def by (auto simp: of_char_of)
qed

lemma set_collapseWhiteSpace: "set (collapseWhiteSpace s) \<subseteq> insert CHR '' '' (set s)"
proof (induction s rule: collapseWhiteSpace.induct)
  case 1
  then show ?case by simp
next
  case (2 c cs)
  have "set (dropWhile isWhiteSpace cs) \<subseteq> set cs" by (rule set_dropWhileD[THEN subsetI])
  with 2 show ?case by (auto split: if_splits)
qed

lemma set_trim: "set (trim s) \<subseteq> set s"
  unfolding trim_def by (auto dest!: set_dropWhileD)

lemma normalize_lowerish: "c \<in> set (normalize s) \<Longrightarrow> lowerish c"
proof -
  assume "c \<in> set (normalize s)"
  then have "c = CHR '' '' \<or>
             (c \<in> set (trim (toLowerCase s)) \<and> c \<notin> set [CHR ''.'', CHR ''_'', CHR ''-''])"
    unfolding normalize_def using set_collapseWhiteSpace by fastforce
  then show "lowerish c"
  proof
    assume "c = CHR '' ''" then show ?thesis by (simp add: lowerish_def)
  next
    assume h: "c \<in> set (trim (toLowerCase s)) \<and> c \<notin> set [CHR ''.'', CHR ''_'', CHR ''-'']"
    then have "c \<in> set (toLowerCase s)" using set_trim by blast
    then obtain c0 where "c = toLowerChar c0" by (auto simp: toLowerCase_def)
    with h toLowerChar_not_upper[of c0] show ?thesis by (simp add: lowerish_def)
  qed
qed

lemma normalize_prototype_name:
  assumes "normalize s \<in> set objectPrototypeNames"
  shows "normalize s = ''constructor''"
proof (rule ccontr)
  assume ne: "normalize s \<noteq> ''constructor''"
  have "\<forall>x\<in>set objectPrototypeNames. x \<noteq> ''constructor'' \<longrightarrow> (\<exists>c\<in>set x. \<not> lowerish c)"
    by (simp add: objectPrototypeNames_def lowerish_def)
  with assms ne obtain c where "c \<in> set (normalize s)" "\<not> lowerish c" by blast
  then show False using normalize_lowerish by blast
qed

subsection \<open>Facts of the database, by evaluation\<close>

lemma keys_shopify_plus: "''shopify plus'' \<notin> set (map fst COMPANY_DATABASE)" by code_simp
lemma keys_shoppify: "''shoppify'' \<notin> set (map fst COMPANY_DATABASE)" by code_simp
lemma keys_empty: "'''' \<notin> set (map fst COMPANY_DATABASE)" by code_simp
lemma keys_acme: "''acme co'' \<notin> set (map fst COMPANY_DATABASE)" by code_simp
lemma aliasNames_shoppify: "''shoppify'' \<notin> set (aliasNames COMPANY_DATABASE)" by code_simp
lemma aliasNames_empty: "'''' \<notin> set (aliasNames COMPANY_DATABASE)" by code_simp
lemma aliasNames_acme: "''acme co'' \<notin> set (aliasNames COMPANY_DATABASE)" by code_simp
lemma far_acme: "list_all (\<lambda>s. 2 < distance ''acme co'' s) (candidateNames COMPANY_DATABASE)" by code_simp
lemma far_constructor: "list_all (\<lambda>s. 2 < distance ''constructor'' s) (candidateNames COMPANY_DATABASE)" by code_simp
lemma fuzzyScan_empty:
  "fuzzyScan COMPANY_DATABASE '''' None =
     Some \<lparr>bkey = ''twitter'',
           bentry = \<lparr>domain = ''x.com'', aliases = [''x'', ''x.com''], category = ''Social''\<rparr>,
           dist = 1, via = ''x''\<rparr>"
  by code_simp
lemma normalize_acme: "normalize ''Acme Co'' = ''acme co''" by code_simp
lemma normalize_shoppify: "normalize ''shoppify'' = ''shoppify''" by code_simp
lemma normalize_shopify_plus: "normalize ''Shopify  Plus'' = ''shopify plus''" by code_simp
lemma normalize_alias_shopify_plus: "normalize ''shopify plus'' = ''shopify plus''" by code_simp
lemma normalize_Shopify: "normalize ''Shopify'' = ''shopify''" by code_simp
lemma normalize_empty: "normalize '''' = ''''" by code_simp
lemma distance_shoppify: "distance ''shoppify'' ''shopify'' = 1" by code_simp
lemma distance_shopify_plus: "distance ''shopify plus'' ''shopify plus'' = 0" by code_simp
lemma distance_refl_constructor: "distance ''constructor'' ''constructor'' = 0" by code_simp
lemma sanitized_acme: "filter (\<lambda>c. \<not> isWhiteSpace c) ''acme co'' = ''acmeco''" by code_simp

subsection \<open>The tiers of \<open>resolveDomain\<close>\<close>

lemma dbGet_Own: "map_of COMPANY_DATABASE k = Some e \<Longrightarrow> dbGet k = Own e"
  by (simp add: dbGet_def)

lemma no_candidate_near_constructor:
  "c \<in> set (candidateNames COMPANY_DATABASE) \<Longrightarrow> 2 < distance ''constructor'' c"
  using far_constructor by (simp add: list_all_iff)

lemma aliasNames_subset: "set (aliasNames db) \<subseteq> set (candidateNames db)"
  by (induction db) (auto simp: aliasNames_def candidateNames_def)

lemma constructor_no_candidate: "''constructor'' \<notin> set (candidateNames COMPANY_DATABASE)"
  using no_candidate_near_constructor[of "''constructor''"] distance_refl_constructor by auto

lemma dist_candidates: "map dist (candidates n db) = map (distance n) (candidateNames db)"
  by (induction db) (auto simp: candidates_def candidateNames_def entryCandidates_def)

lemma aliasNames_iff:
  "s \<in> set (aliasNames db) \<longleftrightarrow> (\<exists>(k, e)\<in>set db. s \<in> normalize ` set (aliases e))"
  by (induction db) (auto simp: aliasNames_def)

lemma aliasNames_memberI:
  "(k, e) \<in> set db \<Longrightarrow> a \<in> set (aliases e) \<Longrightarrow> normalize a \<in> set (aliasNames db)"
  by (induction db) (auto simp: aliasNames_def)

lemma dbGet_Missing_alias:
  assumes "normalize input \<notin> fst ` set COMPANY_DATABASE"
    and "normalize input \<in> set (candidateNames COMPANY_DATABASE)"
  shows "dbGet (normalize input) = Missing"
proof -
  have "normalize input \<notin> set objectPrototypeNames"
    using normalize_prototype_name[of input] constructor_no_candidate assms(2) by auto
  moreover have "map_of COMPANY_DATABASE (normalize input) = None"
    using assms(1) by (simp add: map_of_eq_None_iff)
  ultimately show ?thesis by (simp add: dbGet_def)
qed

lemma dbGet_Missing_near:
  assumes "normalize input \<notin> fst ` set COMPANY_DATABASE"
    and "s \<in> set (candidateNames COMPANY_DATABASE)" and "distance (normalize input) s \<le> 2"
  shows "dbGet (normalize input) = Missing"
proof -
  have "normalize input \<notin> set objectPrototypeNames"
    using normalize_prototype_name[of input] no_candidate_near_constructor[OF assms(2)] assms(3)
    by auto
  moreover have "map_of COMPANY_DATABASE (normalize input) = None"
    using assms(1) by (simp add: map_of_eq_None_iff)
  ultimately show ?thesis by (simp add: dbGet_def)
qed

text \<open>
  Claim C1. Whenever the normal form of the input is a key of the database,
  \<open>resolveDomain\<close> answers with confidence \<open>exact\<close>, the domain of that key's entry, and
  the key itself as company, whatever the live search would have said.
\<close>
theorem resolveDomain_exact:
  assumes "map_of COMPANY_DATABASE (normalize input) = Some entry"
  shows "resolveDomain searchWebForDomain input =
           \<lparr>rdomain = Some (domain entry), company = normalize input,
            rcategory = Some (category entry), confidence = Exact,
            matchedName = normalize input\<rparr>"
  using assms by (simp add: resolveDomain_def dbGet_Own Let_def)

text \<open>
  Claim C5. When the normal form of the input is no key but is the normal form of some
  entry's alias, the answer has confidence \<open>alias\<close>; its company is the key of the first
  entry, in the order of the database, that declares such an alias (no entry before it
  does), its domain is that entry's, and the matched name is the first such alias of that
  entry. The inherited name \<open>constructor\<close> is the normal form of no alias, so tier 1 is
  passed.
\<close>
theorem resolveDomain_alias:
  assumes nokey: "normalize input \<notin> fst ` set COMPANY_DATABASE"
    and isalias: "\<exists>(k, e)\<in>set COMPANY_DATABASE. \<exists>a\<in>set (aliases e). normalize a = normalize input"
  shows "\<exists>pre k e post as1 a as2.
           COMPANY_DATABASE = pre @ (k, e) # post \<and>
           (\<forall>(k', e')\<in>set pre. \<forall>a'\<in>set (aliases e'). normalize a' \<noteq> normalize input) \<and>
           aliases e = as1 @ a # as2 \<and> normalize a = normalize input \<and>
           (\<forall>a'\<in>set as1. normalize a' \<noteq> normalize input) \<and>
           resolveDomain searchWebForDomain input =
             \<lparr>rdomain = Some (domain e), company = k, rcategory = Some (category e),
              confidence = Alias, matchedName = a\<rparr>"
proof -
  let ?n = "normalize input"
  from isalias obtain k0 e0 a0 where
    w: "(k0, e0) \<in> set COMPANY_DATABASE" "a0 \<in> set (aliases e0)" "normalize a0 = ?n" by blast
  have inal: "?n \<in> set (aliasNames COMPANY_DATABASE)"
    using aliasNames_memberI[OF w(1,2)] w(3) by simp
  then have "?n \<in> set (candidateNames COMPANY_DATABASE)" using aliasNames_subset by blast
  with nokey have miss: "dbGet ?n = Missing" by (rule dbGet_Missing_alias)
  from inal obtain r where r: "aliasMatch COMPANY_DATABASE ?n = Some r"
    using aliasMatch_None[of COMPANY_DATABASE ?n] by (cases "aliasMatch COMPANY_DATABASE ?n") auto
  from aliasMatch_Some[OF r] obtain pre k e post as1 a as2 where
    h: "COMPANY_DATABASE = pre @ (k, e) # post" "?n \<notin> set (aliasNames pre)"
       "aliases e = as1 @ a # as2" "normalize a = ?n" "?n \<notin> normalize ` set as1"
       "r = \<lparr>rdomain = Some (domain e), company = k, rcategory = Some (category e),
             confidence = Alias, matchedName = a\<rparr>" by blast
  have res: "resolveDomain searchWebForDomain input = r"
    using miss r by (simp add: resolveDomain_def Let_def)
  have p1: "\<forall>(k', e')\<in>set pre. \<forall>a'\<in>set (aliases e'). normalize a' \<noteq> ?n"
  proof (intro ballI, clarify)
    fix k' e' a' assume "(k', e') \<in> set pre" "a' \<in> set (aliases e')" "normalize a' = ?n"
    then show False using aliasNames_memberI[of k' e' pre a'] h(2) by simp
  qed
  have p2: "\<forall>a'\<in>set as1. normalize a' \<noteq> ?n" using h(5) by (metis image_eqI)
  show ?thesis using h(1,3,4,6) res p1 p2 by blast
qed

lemma first_entry:
  "(''shopify'', \<lparr>domain = ''shopify.com'', aliases = [''shopify plus''], category = ''E-Commerce''\<rparr>)
     \<in> set COMPANY_DATABASE"
  unfolding COMPANY_DATABASE_def by (rule list.set_intros(1))

lemma map_of_shopify:
  "map_of COMPANY_DATABASE ''shopify'' =
     Some \<lparr>domain = ''shopify.com'', aliases = [''shopify plus''], category = ''E-Commerce''\<rparr>"
  unfolding COMPANY_DATABASE_def by (simp only: map_of.simps fst_conv snd_conv fun_upd_same)

lemma candidateNames_memberI:
  "(k, e) \<in> set db \<Longrightarrow> k \<in> set (candidateNames db)"
  "(k, e) \<in> set db \<Longrightarrow> a \<in> set (aliases e) \<Longrightarrow> normalize a \<in> set (candidateNames db)"
  by (induction db) (auto simp: candidateNames_def)

lemma candidateNames_memberE:
  assumes "s \<in> set (candidateNames db)"
  obtains k e where "(k, e) \<in> set db" "s = k \<or> (\<exists>a\<in>set (aliases e). s = normalize a)"
  using assms by (induction db) (auto simp: candidateNames_def)

lemma candidates_dist_mem:
  "c \<in> set (candidates n db) \<Longrightarrow> \<exists>s\<in>set (candidateNames db). dist c = distance n s"
proof -
  assume "c \<in> set (candidates n db)"
  then have "dist c \<in> set (map dist (candidates n db))" by simp
  then show ?thesis unfolding dist_candidates by auto
qed

lemma candidateNames_dist_mem:
  "s \<in> set (candidateNames db) \<Longrightarrow> \<exists>c\<in>set (candidates n db). dist c = distance n s"
proof -
  assume "s \<in> set (candidateNames db)"
  then have "distance n s \<in> set (map (distance n) (candidateNames db))" by simp
  then show ?thesis unfolding dist_candidates[symmetric] by auto
qed

text \<open>Tier 3 on any database: the outcome of the scan.\<close>

lemma fuzzyScan_first_min:
  assumes "\<exists>c\<in>set (candidates n db). dist c \<le> 2"
  shows "\<exists>i<length (candidates n db).
           dist (candidates n db ! i) \<le> 2 \<and>
           (\<forall>j<length (candidates n db). dist (candidates n db ! i) \<le> dist (candidates n db ! j)) \<and>
           (\<forall>j<i. dist (candidates n db ! i) < dist (candidates n db ! j)) \<and>
           fuzzyScan db n None = Some (candidates n db ! i)"
proof -
  let ?cs = "candidates n db"
  from assms obtain c where c: "c \<in> set ?cs" "dist c \<le> 2" by blast
  then have "?cs \<noteq> []" by auto
  from first_min_exists[OF this, of dist] obtain i where
    i: "i < length ?cs" "\<forall>j<length ?cs. dist (?cs ! i) \<le> dist (?cs ! j)"
       "\<forall>j<i. dist (?cs ! i) < dist (?cs ! j)" by blast
  from c(1) obtain j where "j < length ?cs" "?cs ! j = c" by (auto simp: in_set_conv_nth)
  with i(2) c(2) have le2: "dist (?cs ! i) \<le> 2" by fastforce
  have "fuzzyScan db n None = Some (?cs ! i)"
    unfolding fuzzyScan_foldl using i(1) le2 i(2,3) by (rule foldl_pick_first_min)
  with i le2 show ?thesis by blast
qed

lemma fuzzyScan_None:
  assumes "\<forall>s\<in>set (candidateNames db). 2 < distance n s"
  shows "fuzzyScan db n None = None"
  unfolding fuzzyScan_foldl
proof (rule foldl_pick_None, rule ballI)
  fix c assume "c \<in> set (candidates n db)"
  from candidates_dist_mem[OF this] assms show "2 < dist c" by auto
qed

text \<open>
  Claim C2, amended. When the normal form of the input is no key and the normal form of no
  alias, but some key or normalized alias is within distance 2 of it, the answer has
  confidence \<open>fuzzy\<close> and comes from the candidate \<open>candidates \<dots> ! i\<close> whose distance is
  at most 2 and smallest among all candidates, and strictly smaller than that of every
  candidate visited before it: ties go to the first one met, keys and aliases being visited
  in the order of the database.
\<close>
theorem resolveDomain_fuzzy:
  assumes nokey: "normalize input \<notin> fst ` set COMPANY_DATABASE"
    and noalias: "\<forall>(k, e)\<in>set COMPANY_DATABASE. \<forall>a\<in>set (aliases e). normalize a \<noteq> normalize input"
    and near: "\<exists>(k, e)\<in>set COMPANY_DATABASE.
                 distance (normalize input) k \<le> 2 \<or>
                 (\<exists>a\<in>set (aliases e). distance (normalize input) (normalize a) \<le> 2)"
  shows "\<exists>i<length (candidates (normalize input) COMPANY_DATABASE).
           (let cs = candidates (normalize input) COMPANY_DATABASE; best = cs ! i
            in dist best \<le> 2 \<and>
               (\<forall>j<length cs. dist best \<le> dist (cs ! j)) \<and>
               (\<forall>j<i. dist best < dist (cs ! j)) \<and>
               resolveDomain searchWebForDomain input =
                 \<lparr>rdomain = Some (domain (bentry best)), company = bkey best,
                  rcategory = Some (category (bentry best)), confidence = Fuzzy,
                  matchedName = via best\<rparr>)"
proof -
  let ?n = "normalize input"
  let ?cs = "candidates ?n COMPANY_DATABASE"
  from near obtain k e where ke: "(k, e) \<in> set COMPANY_DATABASE"
    and d: "distance ?n k \<le> 2 \<or> (\<exists>a\<in>set (aliases e). distance ?n (normalize a) \<le> 2)"
    by blast
  from ke d obtain s where s: "s \<in> set (candidateNames COMPANY_DATABASE)" "distance ?n s \<le> 2"
    using candidateNames_memberI by blast
  from nokey s have miss: "dbGet ?n = Missing" by (rule dbGet_Missing_near)
  have "?n \<notin> set (aliasNames COMPANY_DATABASE)"
  proof
    assume "?n \<in> set (aliasNames COMPANY_DATABASE)"
    then obtain k' e' where "(k', e') \<in> set COMPANY_DATABASE" "?n \<in> normalize ` set (aliases e')"
      unfolding aliasNames_iff by blast
    with noalias show False by fastforce
  qed
  then have al: "aliasMatch COMPANY_DATABASE ?n = None" by (simp add: aliasMatch_None)
  from candidateNames_dist_mem[OF s(1), of ?n] obtain c0 where
    "c0 \<in> set ?cs" "dist c0 = distance ?n s" by blast
  with s(2) have "\<exists>c\<in>set ?cs. dist c \<le> 2" by (intro bexI[of _ c0]) simp_all
  from fuzzyScan_first_min[OF this] obtain i where
    i: "i < length ?cs" "dist (?cs ! i) \<le> 2" "\<forall>j<length ?cs. dist (?cs ! i) \<le> dist (?cs ! j)"
       "\<forall>j<i. dist (?cs ! i) < dist (?cs ! j)"
       "fuzzyScan COMPANY_DATABASE ?n None = Some (?cs ! i)" by blast
  have "resolveDomain searchWebForDomain input =
          \<lparr>rdomain = Some (domain (bentry (?cs ! i))), company = bkey (?cs ! i),
           rcategory = Some (category (bentry (?cs ! i))), confidence = Fuzzy,
           matchedName = via (?cs ! i)\<rparr>"
    using miss al i(5) by (simp add: resolveDomain_def Let_def)
  with i(1-4) show ?thesis unfolding Let_def by blast
qed

text \<open>
  Claim C7, amended. When tiers 1 to 4 find nothing (the lookup misses, no alias has the
  input's normal form, no key or normalized alias is within distance 2, the live search
  returns nothing), the answer has confidence \<open>inferred\<close>; domain and company are built from
  the normal form without its white space, and the matched name is the raw input.
\<close>
theorem resolveDomain_inferred:
  assumes tier1: "dbGet (normalize input) = Missing"
    and tier2: "\<forall>(k, e)\<in>set COMPANY_DATABASE. \<forall>a\<in>set (aliases e). normalize a \<noteq> normalize input"
    and tier3: "\<forall>(k, e)\<in>set COMPANY_DATABASE.
                  2 < distance (normalize input) k \<and>
                  (\<forall>a\<in>set (aliases e). 2 < distance (normalize input) (normalize a))"
    and tier4: "searchWebForDomain input = None \<or> searchWebForDomain input = Some []"
  shows "resolveDomain searchWebForDomain input =
           \<lparr>rdomain = Some (filter (\<lambda>c. \<not> isWhiteSpace c) (normalize input) @ ''.com''),
            company = filter (\<lambda>c. \<not> isWhiteSpace c) (normalize input),
            rcategory = Some ''Unknown'', confidence = Inferred, matchedName = input\<rparr>"
proof -
  let ?n = "normalize input"
  have "?n \<notin> set (aliasNames COMPANY_DATABASE)"
  proof
    assume "?n \<in> set (aliasNames COMPANY_DATABASE)"
    then obtain k' e' where "(k', e') \<in> set COMPANY_DATABASE" "?n \<in> normalize ` set (aliases e')"
      unfolding aliasNames_iff by blast
    with tier2 show False by fastforce
  qed
  then have al: "aliasMatch COMPANY_DATABASE ?n = None" by (simp add: aliasMatch_None)
  have "\<forall>s\<in>set (candidateNames COMPANY_DATABASE). 2 < distance ?n s"
  proof
    fix s assume "s \<in> set (candidateNames COMPANY_DATABASE)"
    then obtain k e where "(k, e) \<in> set COMPANY_DATABASE"
      "s = k \<or> (\<exists>a\<in>set (aliases e). s = normalize a)" by (rule candidateNames_memberE)
    with tier3 show "2 < distance ?n s" by fastforce
  qed
  then have fz: "fuzzyScan COMPANY_DATABASE ?n None = None" by (rule fuzzyScan_None)
  from tier4 show ?thesis
    using tier1 al fz by (auto simp: resolveDomain_def inferDomain_def Let_def)
qed

lemma aliasMatch_head:
  "findAlias (aliases e) n = Some a \<Longrightarrow>
     aliasMatch ((k, e) # rest) n =
       Some \<lparr>rdomain = Some (domain e), company = k, rcategory = Some (category e),
             confidence = Alias, matchedName = a\<rparr>"
  by simp

lemma aliasMatch_shopify_plus:
  "aliasMatch COMPANY_DATABASE ''shopify plus'' =
     Some \<lparr>rdomain = Some ''shopify.com'', company = ''shopify'', rcategory = Some ''E-Commerce'',
           confidence = Alias, matchedName = ''shopify plus''\<rparr>"
proof -
  have "findAlias (aliases \<lparr>domain = ''shopify.com'', aliases = [''shopify plus''],
                            category = ''E-Commerce''\<rparr>) ''shopify plus'' = Some ''shopify plus''"
    by (simp add: normalize_alias_shopify_plus)
  from aliasMatch_head[OF this] show ?thesis
    unfolding COMPANY_DATABASE_def by simp
qed

lemma no_alias_from_names:
  "n \<notin> set (aliasNames db) \<Longrightarrow> \<forall>(k, e)\<in>set db. \<forall>a\<in>set (aliases e). normalize a \<noteq> n"
  using aliasNames_memberI by fastforce

lemma far_from_names:
  assumes "list_all (\<lambda>s. 2 < distance n s) (candidateNames db)"
  shows "\<forall>(k, e)\<in>set db. 2 < distance n k \<and> (\<forall>a\<in>set (aliases e). 2 < distance n (normalize a))"
proof (intro ballI, clarify)
  fix k e assume ke: "(k, e) \<in> set db"
  from assms have all: "\<And>s. s \<in> set (candidateNames db) \<Longrightarrow> 2 < distance n s"
    by (simp add: list_all_iff)
  show "2 < distance n k \<and> (\<forall>a\<in>set (aliases e). 2 < distance n (normalize a))"
    using all candidateNames_memberI[OF ke] by blast
qed

lemma dbGet_Missing_plain:
  "k \<notin> set (map fst COMPANY_DATABASE) \<Longrightarrow> k \<notin> set objectPrototypeNames \<Longrightarrow> dbGet k = Missing"
proof -
  assume "k \<notin> set (map fst COMPANY_DATABASE)" and np: "k \<notin> set objectPrototypeNames"
  then have "map_of COMPANY_DATABASE k = None" by (simp add: map_of_eq_None_iff)
  with np show ?thesis by (simp add: dbGet_def)
qed

lemma sanitized_norm_acme:
  "filter (\<lambda>c. \<not> isWhiteSpace c) (normalize ''Acme Co'') = ''acmeco''"
  by (simp only: normalize_acme sanitized_acme)

lemma dbGet_empty: "dbGet '''' = Missing"
  by (rule dbGet_Missing_plain[OF keys_empty]) (simp add: objectPrototypeNames_def)

lemma dbGet_acme: "dbGet ''acme co'' = Missing"
  by (rule dbGet_Missing_plain[OF keys_acme]) (simp add: objectPrototypeNames_def)

lemma dbGet_shopify_plus: "dbGet ''shopify plus'' = Missing"
  by (rule dbGet_Missing_plain[OF keys_shopify_plus]) (simp add: objectPrototypeNames_def)

text \<open>The input \<open>Shopify\<close> normalizes to the first key of the database.\<close>
theorem resolveDomain_exact_witness:
  "map_of COMPANY_DATABASE (normalize ''Shopify'') =
     Some \<lparr>domain = ''shopify.com'', aliases = [''shopify plus''], category = ''E-Commerce''\<rparr> \<and>
   resolveDomain noLiveResult ''Shopify'' =
     \<lparr>rdomain = Some ''shopify.com'', company = ''shopify'', rcategory = Some ''E-Commerce'',
      confidence = Exact, matchedName = ''shopify''\<rparr>"
proof -
  have h: "map_of COMPANY_DATABASE (normalize ''Shopify'') =
     Some \<lparr>domain = ''shopify.com'', aliases = [''shopify plus''], category = ''E-Commerce''\<rparr>"
    using map_of_shopify by (simp only: normalize_Shopify)
  from resolveDomain_exact[OF h, of noLiveResult] h show ?thesis
    by (simp add: normalize_Shopify)
qed

text \<open>The input \<open>Shopify  Plus\<close> normalizes to the alias \<open>shopify plus\<close> of the first entry.\<close>
theorem resolveDomain_alias_witness:
  "normalize ''Shopify  Plus'' \<notin> fst ` set COMPANY_DATABASE \<and>
   (\<exists>(k, e)\<in>set COMPANY_DATABASE. \<exists>a\<in>set (aliases e). normalize a = normalize ''Shopify  Plus'') \<and>
   (\<exists>pre k e post as1 a as2.
           COMPANY_DATABASE = pre @ (k, e) # post \<and>
           (\<forall>(k', e')\<in>set pre. \<forall>a'\<in>set (aliases e'). normalize a' \<noteq> normalize ''Shopify  Plus'') \<and>
           aliases e = as1 @ a # as2 \<and> normalize a = normalize ''Shopify  Plus'' \<and>
           (\<forall>a'\<in>set as1. normalize a' \<noteq> normalize ''Shopify  Plus'') \<and>
           resolveDomain noLiveResult ''Shopify  Plus'' =
             \<lparr>rdomain = Some (domain e), company = k, rcategory = Some (category e),
              confidence = Alias, matchedName = a\<rparr>)"
proof -
  have h1: "normalize ''Shopify  Plus'' \<notin> fst ` set COMPANY_DATABASE"
    using keys_shopify_plus by (simp add: normalize_shopify_plus)
  have h2: "\<exists>(k, e)\<in>set COMPANY_DATABASE. \<exists>a\<in>set (aliases e).
              normalize a = normalize ''Shopify  Plus''"
    by (rule bexI[OF _ first_entry])
       (simp add: normalize_shopify_plus normalize_alias_shopify_plus)
  from resolveDomain_alias[OF h1 h2, of noLiveResult] h1 h2 show ?thesis by blast
qed

text \<open>
  Claim C2 as stated fails where the input is an alias: \<open>Shopify  Plus\<close> is no key, it is
  at distance 0 from the alias \<open>shopify plus\<close>, and tier 2 answers \<open>alias\<close> before the
  fuzzy tier is reached.
\<close>
theorem resolveDomain_fuzzy_counterexample:
  "normalize ''Shopify  Plus'' \<notin> fst ` set COMPANY_DATABASE \<and>
   (''shopify'', \<lparr>domain = ''shopify.com'', aliases = [''shopify plus''], category = ''E-Commerce''\<rparr>)
     \<in> set COMPANY_DATABASE \<and>
   distance (normalize ''Shopify  Plus'') (normalize ''shopify plus'') \<le> 2 \<and>
   confidence (resolveDomain noLiveResult ''Shopify  Plus'') = Alias"
proof -
  have h1: "normalize ''Shopify  Plus'' \<notin> fst ` set COMPANY_DATABASE"
    using keys_shopify_plus by (simp add: normalize_shopify_plus)
  have h3: "distance (normalize ''Shopify  Plus'') (normalize ''shopify plus'') \<le> 2"
    by (simp add: normalize_shopify_plus normalize_alias_shopify_plus distance_shopify_plus)
  have "confidence (resolveDomain noLiveResult ''Shopify  Plus'') = Alias"
    by (simp add: resolveDomain_def Let_def normalize_shopify_plus dbGet_shopify_plus
        aliasMatch_shopify_plus)
  with h1 first_entry h3 show ?thesis by blast
qed

text \<open>The misspelling \<open>shoppify\<close> is one edit away from the key \<open>shopify\<close>.\<close>
theorem resolveDomain_fuzzy_witness:
  "normalize ''shoppify'' \<notin> fst ` set COMPANY_DATABASE \<and>
   normalize ''shoppify'' \<notin> set (aliasNames COMPANY_DATABASE) \<and>
   (\<exists>(k, e)\<in>set COMPANY_DATABASE.
       distance (normalize ''shoppify'') k \<le> 2 \<or>
       (\<exists>a\<in>set (aliases e). distance (normalize ''shoppify'') (normalize a) \<le> 2)) \<and>
   (\<exists>i<length (candidates (normalize ''shoppify'') COMPANY_DATABASE).
           (let cs = candidates (normalize ''shoppify'') COMPANY_DATABASE; best = cs ! i
            in dist best \<le> 2 \<and>
               (\<forall>j<length cs. dist best \<le> dist (cs ! j)) \<and>
               (\<forall>j<i. dist best < dist (cs ! j)) \<and>
               resolveDomain noLiveResult ''shoppify'' =
                 \<lparr>rdomain = Some (domain (bentry best)), company = bkey best,
                  rcategory = Some (category (bentry best)), confidence = Fuzzy,
                  matchedName = via best\<rparr>))"
proof -
  have h1: "normalize ''shoppify'' \<notin> fst ` set COMPANY_DATABASE"
    using keys_shoppify by (simp add: normalize_shoppify)
  have h2: "\<forall>(k, e)\<in>set COMPANY_DATABASE. \<forall>a\<in>set (aliases e).
              normalize a \<noteq> normalize ''shoppify''"
    unfolding normalize_shoppify by (rule no_alias_from_names[OF aliasNames_shoppify])
  have h3: "\<exists>(k, e)\<in>set COMPANY_DATABASE.
       distance (normalize ''shoppify'') k \<le> 2 \<or>
       (\<exists>a\<in>set (aliases e). distance (normalize ''shoppify'') (normalize a) \<le> 2)"
    by (rule bexI[OF _ first_entry]) (simp add: normalize_shoppify distance_shoppify)
  have h2': "normalize ''shoppify'' \<notin> set (aliasNames COMPANY_DATABASE)"
    using aliasNames_shoppify by (simp add: normalize_shoppify)
  from resolveDomain_fuzzy[OF h1 h2 h3, of noLiveResult] h1 h2' h3 show ?thesis by blast
qed

text \<open>
  Claim C6, amended. The empty input passes tiers 1 and 2 but not tier 3: every key or
  alias of at most two characters is within distance 2 of the empty string, and the nearest,
  at distance 1, is the alias \<open>x\<close> of \<open>twitter\<close>. The answer is that fuzzy match, with
  domain \<open>x.com\<close>; the live search and the inference of tier 5 are never reached.
\<close>
theorem resolveDomain_empty:
  "resolveDomain searchWebForDomain '''' =
     \<lparr>rdomain = Some ''x.com'', company = ''twitter'', rcategory = Some ''Social'',
      confidence = Fuzzy, matchedName = ''x''\<rparr>"
proof -
  have al: "aliasMatch COMPANY_DATABASE '''' = None"
    using aliasNames_empty by (simp add: aliasMatch_None)
  show ?thesis
    by (simp add: resolveDomain_def Let_def normalize_empty dbGet_empty al fuzzyScan_empty)
qed

text \<open>Claim C6 as stated: the empty input is not resolved to the inferred \<open>.com\<close>.\<close>
theorem resolveDomain_empty_counterexample:
  "confidence (resolveDomain noLiveResult '''') = Fuzzy \<and>
   rdomain (resolveDomain noLiveResult '''') = Some ''x.com''"
proof -
  have al: "aliasMatch COMPANY_DATABASE '''' = None"
    using aliasNames_empty by (simp add: aliasMatch_None)
  show ?thesis
    by (simp add: resolveDomain_def Let_def normalize_empty dbGet_empty al fuzzyScan_empty)
qed

text \<open>
  Claim C7 as stated fails on the matched name: for \<open>Acme Co\<close> the company is the sanitized
  \<open>acmeco\<close>, the matched name is the input as typed.
\<close>
theorem resolveDomain_inferred_counterexample:
  "confidence (resolveDomain noLiveResult ''Acme Co'') = Inferred \<and>
   company (resolveDomain noLiveResult ''Acme Co'') = ''acmeco'' \<and>
   matchedName (resolveDomain noLiveResult ''Acme Co'') = ''Acme Co''"
proof -
  have al: "aliasMatch COMPANY_DATABASE ''acme co'' = None"
    using aliasNames_acme by (simp add: aliasMatch_None)
  have fz: "fuzzyScan COMPANY_DATABASE ''acme co'' None = None"
    by (rule fuzzyScan_None) (use far_acme in \<open>simp add: list_all_iff\<close>)
  have "resolveDomain noLiveResult ''Acme Co'' = inferDomain ''acme co'' ''Acme Co''"
    by (simp add: resolveDomain_def Let_def normalize_acme dbGet_acme al fz noLiveResult_def)
  moreover have "inferDomain ''acme co'' ''Acme Co'' =
     \<lparr>rdomain = Some (''acmeco'' @ ''.com''), company = ''acmeco'', rcategory = Some ''Unknown'',
      confidence = Inferred, matchedName = ''Acme Co''\<rparr>"
    by (simp only: inferDomain_def Let_def sanitized_acme)
  ultimately show ?thesis by simp
qed

text \<open>\<open>Acme Co\<close> is far from every key and alias, and the live search finds nothing.\<close>
theorem resolveDomain_inferred_witness:
  "dbGet (normalize ''Acme Co'') = Missing \<and>
   normalize ''Acme Co'' \<notin> set (aliasNames COMPANY_DATABASE) \<and>
   list_all (\<lambda>s. 2 < distance (normalize ''Acme Co'') s) (candidateNames COMPANY_DATABASE) \<and>
   (noLiveResult ''Acme Co'' = None \<or> noLiveResult ''Acme Co'' = Some []) \<and>
   resolveDomain noLiveResult ''Acme Co'' =
     \<lparr>rdomain = Some ''acmeco.com'', company = ''acmeco'', rcategory = Some ''Unknown'',
      confidence = Inferred, matchedName = ''Acme Co''\<rparr>"
proof -
  have h1: "dbGet (normalize ''Acme Co'') = Missing"
    by (simp add: normalize_acme dbGet_acme)
  have h2: "\<forall>(k, e)\<in>set COMPANY_DATABASE. \<forall>a\<in>set (aliases e).
              normalize a \<noteq> normalize ''Acme Co''"
    unfolding normalize_acme by (rule no_alias_from_names[OF aliasNames_acme])
  have h3: "\<forall>(k, e)\<in>set COMPANY_DATABASE.
       2 < distance (normalize ''Acme Co'') k \<and>
       (\<forall>a\<in>set (aliases e). 2 < distance (normalize ''Acme Co'') (normalize a))"
    unfolding normalize_acme by (rule far_from_names[OF far_acme])
  have h4: "noLiveResult ''Acme Co'' = None \<or> noLiveResult ''Acme Co'' = Some []"
    by (simp add: noLiveResult_def)
  have "resolveDomain noLiveResult ''Acme Co'' =
     \<lparr>rdomain = Some ''acmeco.com'', company = ''acmeco'', rcategory = Some ''Unknown'',
      confidence = Inferred, matchedName = ''Acme Co''\<rparr>"
    using resolveDomain_inferred[of "''Acme Co''" noLiveResult, OF h1 h2 h3 h4]
    unfolding sanitized_norm_acme by simp
  moreover have "normalize ''Acme Co'' \<notin> set (aliasNames COMPANY_DATABASE)"
    using aliasNames_acme by (simp add: normalize_acme)
  moreover have "list_all (\<lambda>s. 2 < distance (normalize ''Acme Co'') s)
                   (candidateNames COMPANY_DATABASE)"
    using far_acme by (simp add: normalize_acme)
  ultimately show ?thesis using h1 h4 by blast
qed

section \<open>Properties of the company search\<close>





















section \<open>Properties of the image validator\<close>

lemma riff_shape:
  assumes "100 \<le> length buffer" and "take 4 buffer = [0x52, 0x49, 0x46, 0x46]"
  obtains rest where "buffer = 0x52 # 0x49 # 0x46 # 0x46 # rest"
proof -
  have "buffer = take 4 buffer @ drop 4 buffer" by simp
  with assms(2) have "buffer = 0x52 # 0x49 # 0x46 # 0x46 # drop 4 buffer" by simp
  then show ?thesis by (rule that)
qed

lemma detectFormat_riff:
  assumes "100 \<le> length buffer" and "take 4 buffer = [0x52, 0x49, 0x46, 0x46]"
  shows "detectFormat buffer =
           Some \<lparr>bytes = [0x52, 0x49, 0x46, 0x46], offset = 0, format = ''WEBP'',
                 extension = ''webp'', mimeType = ''image/webp''\<rparr>"
proof -
  from assms obtain rest where b: "buffer = 0x52 # 0x49 # 0x46 # 0x46 # rest"
    by (rule riff_shape)
  show ?thesis
    unfolding detectFormat_def IMAGE_SIGNATURES_def b by simp
qed

text \<open>
  Claim C8. A buffer of fewer than 100 bytes is rejected, and the result is a function of
  its length alone: the empty buffer with the reason "empty", any other with the reason
  "too small", whatever its bytes and whatever the text checks or the signature table would
  have said.
\<close>
theorem validateImage_small:
  assumes "length buffer < 100"
  shows "validateImage toStringUtf8 buffer =
           \<lparr>valid = False, info = None,
            reason = Some (if length buffer = 0 then EmptyBuffer else TooSmall (length buffer))\<rparr>"
  using assms by (simp add: validateImage_def)

lemma length_tinyGif: "length tinyGif = 35"
  by (simp add: tinyGif_def)

text \<open>A buffer of 35 bytes that starts with the GIF89a signature.\<close>
theorem validateImage_small_witness:
  "length tinyGif < 100 \<and>
   validateImage asciiText tinyGif =
     \<lparr>valid = False, info = None, reason = Some (TooSmall 35)\<rparr>"
proof -
  have h: "length tinyGif < 100" by (simp add: length_tinyGif)
  from validateImage_small[OF h, of asciiText] h show ?thesis
    by (simp add: length_tinyGif)
qed

text \<open>
  Claim C10. A buffer of at least 100 bytes whose first four bytes are \<open>RIFF\<close> and that
  trips neither the HTML nor the SVG check is a valid image of format \<open>WEBP\<close>: no
  hypothesis is made on the bytes 8 to 11, the table entry compares four bytes only.
\<close>
theorem validateImage_riff:
  assumes "100 \<le> length buffer"
    and "take 4 buffer = [0x52, 0x49, 0x46, 0x46]"
    and "\<not> isHtmlContent toStringUtf8 buffer"
    and "\<not> isSvgContent toStringUtf8 buffer"
  shows "validateImage toStringUtf8 buffer =
           \<lparr>valid = True,
            info = Some \<lparr>iformat = ''WEBP'', iextension = ''webp'', imimeType = ''image/webp'',
                         sizeBytes = length buffer, isValid = True, isSvg = False\<rparr>,
            reason = None\<rparr>"
proof -
  from assms(1) have "buffer \<noteq> []" "\<not> length buffer < 100" by auto
  with assms show ?thesis by (simp add: validateImage_def detectFormat_riff)
qed

lemma length_wavFile: "length wavFile = 108"
  by (simp add: wavFile_def)

lemma take4_wavFile: "take 4 wavFile = [0x52, 0x49, 0x46, 0x46]"
  by (simp add: wavFile_def)

lemma wavFile_not_html: "\<not> isHtmlContent asciiText wavFile"
  by code_simp

lemma wavFile_not_svg: "\<not> isSvgContent asciiText wavFile"
  by code_simp

text \<open>The head of a WAV file: bytes 8 to 11 spell \<open>WAVE\<close>, and it is accepted as WEBP.\<close>
theorem validateImage_riff_witness:
  "100 \<le> length wavFile \<and>
   take 4 wavFile = [0x52, 0x49, 0x46, 0x46] \<and>
   take 4 (drop 8 wavFile) = [0x57, 0x41, 0x56, 0x45] \<and>
   \<not> isHtmlContent asciiText wavFile \<and>
   \<not> isSvgContent asciiText wavFile \<and>
   validateImage asciiText wavFile =
     \<lparr>valid = True,
      info = Some \<lparr>iformat = ''WEBP'', iextension = ''webp'', imimeType = ''image/webp'',
                   sizeBytes = 108, isValid = True, isSvg = False\<rparr>,
      reason = None\<rparr>"
proof -
  have h1: "100 \<le> length wavFile" by (simp add: length_wavFile)
  have h5: "take 4 (drop 8 wavFile) = [0x57, 0x41, 0x56, 0x45]" by (simp add: wavFile_def)
  from validateImage_riff[OF h1 take4_wavFile wavFile_not_html wavFile_not_svg]
    h1 take4_wavFile h5 wavFile_not_html wavFile_not_svg
  show ?thesis by (simp add: length_wavFile)
qed

section \<open>Properties of the logo fetcher\<close>


text \<open>
  Whatever the world answers, the loop ends in one of two shapes: a success with a logo,
  whose last attempt succeeded after failed ones, or the failure with one failed attempt
  for every source.
\<close>

lemma fetchLoop_outcome:
  assumes "fetchLoop e t srcs domainName companyName logoSize tried = (r, t')"
  shows "\<exists>new. attempts r = tried @ new \<and>
           ((success r \<and> logo r \<noteq> None \<and> error r = None \<and> new \<noteq> [] \<and>
               asuccess (last new) \<and> (\<forall>a\<in>set (butlast new). \<not> asuccess a)) \<or>
            (\<not> success r \<and> logo r = None \<and>
               error r = Some (AllSourcesFailed (length SOURCES)) \<and>
               length new = length srcs \<and> (\<forall>a\<in>set new. \<not> asuccess a)))"
  using assms
proof (induction srcs arbitrary: t tried)
  case Nil
  then have "attempts r = tried @ []" "\<not> success r" "logo r = None"
    "error r = Some (AllSourcesFailed (length SOURCES))" by auto
  then show ?case by (intro exI[of _ "[]"]) simp
next
  case (Cons src rest)
  let ?input = "if usesCompanyName src then companyName else domainName"
  obtain res t1 where run: "fn src e (Suc t) ?input logoSize = (res, t1)"
    by (cases "fn src e (Suc t) ?input logoSize")
  show ?case
  proof (cases res)
    case (Inr found)
    let ?a = "\<lparr>asource = sname src, aurl = sourceUrl found, asuccess = True, aerror = None,
               durationMs = dateNow e t1 - dateNow e t\<rparr>"
    from Cons.prems run Inr have "attempts r = tried @ [?a]" "success r" "logo r = Some found"
      "error r = None" by (auto simp: Let_def)
    then show ?thesis by (intro exI[of _ "[?a]"]) simp
  next
    case (Inl m)
    let ?a = "\<lparr>asource = sname src, aurl = ''['' @ sname src @ ''] '' @ ?input,
               asuccess = False, aerror = Some m, durationMs = dateNow e t1 - dateNow e t\<rparr>"
    from Cons.prems run Inl have
      rec: "fetchLoop e (Suc t1) rest domainName companyName logoSize (tried @ [?a]) = (r, t')"
      by (simp add: Let_def)
    from Cons.IH[OF rec] obtain new where
      att: "attempts r = (tried @ [?a]) @ new" and
      sh: "(success r \<and> logo r \<noteq> None \<and> error r = None \<and> new \<noteq> [] \<and>
               asuccess (last new) \<and> (\<forall>a\<in>set (butlast new). \<not> asuccess a)) \<or>
            (\<not> success r \<and> logo r = None \<and>
               error r = Some (AllSourcesFailed (length SOURCES)) \<and>
               length new = length rest \<and> (\<forall>a\<in>set new. \<not> asuccess a))"
      by blast
    from att have att': "attempts r = tried @ (?a # new)" by simp
    from sh have
      "(success r \<and> logo r \<noteq> None \<and> error r = None \<and> ?a # new \<noteq> [] \<and>
               asuccess (last (?a # new)) \<and> (\<forall>a\<in>set (butlast (?a # new)). \<not> asuccess a)) \<or>
            (\<not> success r \<and> logo r = None \<and>
               error r = Some (AllSourcesFailed (length SOURCES)) \<and>
               length (?a # new) = length (src # rest) \<and> (\<forall>a\<in>set (?a # new). \<not> asuccess a))"
      by auto
    with att' show ?thesis by (intro exI[of _ "?a # new"]) (rule conjI)
  qed
qed

lemma fetchLogo_outcome:
  assumes "fetchLogo e t domainName companyName optSize = (r, t')"
  shows "(success r \<and> logo r \<noteq> None \<and> error r = None \<and> attempts r \<noteq> [] \<and>
            asuccess (last (attempts r))) \<or>
         (\<not> success r \<and> logo r = None \<and> error r = Some (AllSourcesFailed 4) \<and>
            length (attempts r) = 4 \<and> (\<forall>a\<in>set (attempts r). \<not> asuccess a))"
proof -
  from assms fetchLoop_outcome[of e t SOURCES domainName companyName _ "[]" r t']
  obtain new where "attempts r = new" and
    "(success r \<and> logo r \<noteq> None \<and> error r = None \<and> new \<noteq> [] \<and>
        asuccess (last new) \<and> (\<forall>a\<in>set (butlast new). \<not> asuccess a)) \<or>
     (\<not> success r \<and> logo r = None \<and> error r = Some (AllSourcesFailed (length SOURCES)) \<and>
        length new = length SOURCES \<and> (\<forall>a\<in>set new. \<not> asuccess a))"
    unfolding fetchLogo_def by auto
  moreover have "length SOURCES = 4" by (simp add: SOURCES_def)
  ultimately show ?thesis by auto
qed






text \<open>
  Claim C4. Every throw of a source is a value caught by the loop, so \<open>fetchLogo\<close> always
  returns a result. When the four sources fail one after the other, the result has
  \<open>success = false\<close>, no logo, the summary error for the four sources, and four attempts,
  one for each source in order, all failed, each with the message of its source.
\<close>
theorem fetchLogo_all_fail:
  assumes "fetchFromClearbit e (Suc t) domainName logoSize = (Inl m1, t1)"
    and "fetchFromGoogle e (Suc (Suc t1)) domainName logoSize = (Inl m2, t2)"
    and "fetchFromDuckDuckGo e (Suc (Suc t2)) companyName logoSize = (Inl m3, t3)"
    and "fetchDirectFavicon e (Suc (Suc t3)) domainName logoSize = (Inl m4, t4)"
  shows "fetchLogo e t domainName companyName (Some logoSize) =
           (\<lparr>success = False, logo = None,
             attempts =
               [\<lparr>asource = ''Clearbit'', aurl = ''[Clearbit] '' @ domainName, asuccess = False,
                 aerror = Some m1, durationMs = dateNow e t1 - dateNow e t\<rparr>,
                \<lparr>asource = ''Google Favicon'', aurl = ''[Google Favicon] '' @ domainName,
                 asuccess = False, aerror = Some m2,
                 durationMs = dateNow e t2 - dateNow e (Suc t1)\<rparr>,
                \<lparr>asource = ''DuckDuckGo'', aurl = ''[DuckDuckGo] '' @ companyName,
                 asuccess = False, aerror = Some m3,
                 durationMs = dateNow e t3 - dateNow e (Suc t2)\<rparr>,
                \<lparr>asource = ''Direct Favicon'', aurl = ''[Direct Favicon] '' @ domainName,
                 asuccess = False, aerror = Some m4,
                 durationMs = dateNow e t4 - dateNow e (Suc t3)\<rparr>],
             error = Some (AllSourcesFailed 4)\<rparr>, Suc t4)"
  using assms by (simp add: fetchLogo_def SOURCES_def)

lemma allDown_clearbit:
  "fetchFromClearbit allDown (Suc 0) ''acme.com'' Large = (Inl (HttpError 404 ''Not Found''), 2)"
  by code_simp

lemma allDown_google:
  "fetchFromGoogle allDown (Suc (Suc 2)) ''acme.com'' Large = (Inl (HttpError 404 ''Not Found''), 5)"
  by code_simp

lemma allDown_duckduckgo:
  "fetchFromDuckDuckGo allDown (Suc (Suc 5)) ''acme'' Large = (Inl (DdgHttp 404), 8)"
  by code_simp

lemma allDown_favicon:
  "fetchDirectFavicon allDown (Suc (Suc 8)) ''acme.com'' Large =
     (Inl (HttpError 404 ''Not Found''), 14)"
  by code_simp

text \<open>In the world \<open>allDown\<close> the four sources fail and the failure is returned.\<close>
theorem fetchLogo_all_fail_witness:
  "fetchLogo allDown 0 ''acme.com'' ''acme'' (Some Large) =
     (\<lparr>success = False, logo = None,
       attempts =
         [\<lparr>asource = ''Clearbit'', aurl = ''[Clearbit] acme.com'', asuccess = False,
           aerror = Some (HttpError 404 ''Not Found''), durationMs = 2000\<rparr>,
          \<lparr>asource = ''Google Favicon'', aurl = ''[Google Favicon] acme.com'',
           asuccess = False, aerror = Some (HttpError 404 ''Not Found''), durationMs = 2000\<rparr>,
          \<lparr>asource = ''DuckDuckGo'', aurl = ''[DuckDuckGo] acme'', asuccess = False,
           aerror = Some (DdgHttp 404), durationMs = 2000\<rparr>,
          \<lparr>asource = ''Direct Favicon'', aurl = ''[Direct Favicon] acme.com'',
           asuccess = False, aerror = Some (HttpError 404 ''Not Found''), durationMs = 5000\<rparr>],
       error = Some (AllSourcesFailed 4)\<rparr>, 15)"
  using fetchLogo_all_fail[OF allDown_clearbit allDown_google allDown_duckduckgo allDown_favicon]
  by (simp add: allDown_def)

end
